theory Spec2Isabelle
  imports Main "HOL-Library.Char_ord" "HOL-Library.List_Lexorder"
    "HOL-Library.Product_Lexorder"
begin

section \<open>Python values used by the three modules\<close>

text \<open>
  Exceptions are values. Each constructor stands for an exception class together with
  its subclasses, since \<^verbatim>\<open>except\<close> clauses match by class; the string carried by
  some of them is what \<^verbatim>\<open>str(e)\<close> gives.
\<close>

datatype exn =
    NameError string
  | RuntimeError string
  | ValueError
  | KeyError string
  | TypeError
  | AttributeError
  | IndexError
  | OverflowError
  | SystemExit
  | ClientConnectorError string
  | TimeoutError string
  | ServerDisconnectedError string
  | OtherError string

text \<open>
  Strings are lists of characters. \<^typ>\<open>char\<close> has 256 values, so the model covers
  the Latin-1 part of Python's \<^verbatim>\<open>str\<close>; the order on strings is the
  lexicographic order on character codes, as Python's.
\<close>

definition is_space :: "char \<Rightarrow> bool" where
  "is_space c = (of_char c \<in> set [9, 10, 11, 12, 13, 28, 29, 30, 31, 32, 133, 160 :: nat])"

definition is_linebreak :: "char \<Rightarrow> bool" where
  "is_linebreak c = (of_char c \<in> set [10, 11, 12, 13, 28, 29, 30, 133 :: nat])"

definition lstrip_chars :: "string \<Rightarrow> string \<Rightarrow> string" where
  "lstrip_chars cs s = dropWhile (\<lambda>c. c \<in> set cs) s"

definition rstrip_chars :: "string \<Rightarrow> string \<Rightarrow> string" where
  "rstrip_chars cs s = rev (dropWhile (\<lambda>c. c \<in> set cs) (rev s))"

definition strip_chars :: "string \<Rightarrow> string \<Rightarrow> string" where
  "strip_chars cs s = rstrip_chars cs (lstrip_chars cs s)"

definition strip :: "string \<Rightarrow> string" where
  "strip s = rev (dropWhile is_space (rev (dropWhile is_space s)))"

definition startswith :: "string \<Rightarrow> string \<Rightarrow> bool" where
  "startswith p s = (take (length p) s = p)"

fun contains :: "string \<Rightarrow> string \<Rightarrow> bool" where
  "contains sub [] = (sub = [])"
| "contains sub (c # cs) = (startswith sub (c # cs) \<or> contains sub cs)"

text \<open>\<^verbatim>\<open>s.splitlines()\<close>: no empty last line, and CR LF is one line break.\<close>

fun splitlines_from :: "string \<Rightarrow> string \<Rightarrow> string list" where
  "splitlines_from acc [] = (if acc = [] then [] else [rev acc])"
| "splitlines_from acc [c] = (if is_linebreak c then [rev acc] else [rev (c # acc)])"
| "splitlines_from acc (c # d # cs) =
     (if c = CHR 0x0D \<and> d = CHR 0x0A then rev acc # splitlines_from [] cs
      else if is_linebreak c then rev acc # splitlines_from [] (d # cs)
      else splitlines_from (c # acc) (d # cs))"

definition splitlines :: "string \<Rightarrow> string list" where
  "splitlines s = splitlines_from [] s"

text \<open>\<^verbatim>\<open>s.split(sep)\<close> for a separator that is not empty (every separator of the
  source is a literal).\<close>

function split_from :: "string \<Rightarrow> string \<Rightarrow> string \<Rightarrow> string list" where
  "split_from sep acc [] = [rev acc]"
| "split_from sep acc (c # cs) =
     (if sep \<noteq> [] \<and> startswith sep (c # cs)
      then rev acc # split_from sep [] (drop (length sep) (c # cs))
      else split_from sep (c # acc) cs)"
  by pat_completeness auto
termination
  by (relation "measure (\<lambda>(sep, acc, s). length s)") auto

definition split :: "string \<Rightarrow> string \<Rightarrow> string list" where
  "split sep s = split_from sep [] s"

fun join :: "string \<Rightarrow> string list \<Rightarrow> string" where
  "join sep [] = []"
| "join sep [x] = x"
| "join sep (x # y # xs) = x @ sep @ join sep (y # xs)"

text \<open>A loop or comprehension whose body may raise stops at the first exception.\<close>

fun try_map :: "('a \<Rightarrow> exn + 'b) \<Rightarrow> 'a list \<Rightarrow> exn + 'b list" where
  "try_map f [] = Inr []"
| "try_map f (x # xs) =
     (case f x of
        Inl e \<Rightarrow> Inl e
      | Inr y \<Rightarrow> (case try_map f xs of Inl e \<Rightarrow> Inl e | Inr ys \<Rightarrow> Inr (y # ys)))"


text \<open>\<^verbatim>\<open>str(n)\<close> for an integer and \<^verbatim>\<open>"{:>15}".format(s)\<close>.\<close>

fun str_nat :: "nat \<Rightarrow> string" where
  "str_nat n =
     (if n < 10 then [char_of (48 + n)] else str_nat (n div 10) @ [char_of (48 + n mod 10)])"

definition str_int :: "int \<Rightarrow> string" where
  "str_int i = (if i < 0 then CHR ''-'' # str_nat (nat (- i)) else str_nat (nat i))"

definition rjust15 :: "string \<Rightarrow> string" where
  "rjust15 s = replicate (15 - length s) CHR '' '' @ s"

text \<open>
  A Python float is an IEEE 754 double. A finite one is written \<open>Finite m e\<close> for the
  value \<open>m\<close> times 2 to the power \<open>e\<close>, with \<open>m\<close> odd, or \<open>Finite 0 0\<close> for zero (the sign
  of zero is not kept; no operation here tells the two zeros apart).
  \<open>round_double n e\<close> is the double nearest to \<open>n\<close> times 2 to the power \<open>e\<close>, ties to
  the even mantissa, with 53 bits of mantissa, gradual underflow below 2 to the power
  -1022 and overflow to infinity.
\<close>

datatype pyfloat = Finite int int | PosInf | NegInf | NaN

function bit_length :: "int \<Rightarrow> nat" where
  "bit_length n = (if n \<le> 0 then 0 else Suc (bit_length (n div 2)))"
  by pat_completeness auto
termination
  by (relation "measure nat") auto

function strip_zeros :: "int \<Rightarrow> int \<Rightarrow> int \<times> int" where
  "strip_zeros m e =
     (if m = 0 then (0, 0) else if even m then strip_zeros (m div 2) (e + 1) else (m, e))"
  by pat_completeness auto
termination
  by (relation "measure (\<lambda>(m, e). nat \<bar>m\<bar>)") auto

definition round_double :: "int \<Rightarrow> int \<Rightarrow> pyfloat" where
  "round_double n e =
     (let a = \<bar>n\<bar>;
          s = nat (max 0 (max (int (bit_length a) - 53) (- 1074 - e)));
          q = a div 2 ^ s;
          r = a mod 2 ^ s;
          q' = (if 2 * r > 2 ^ s \<or> (2 * r = 2 ^ s \<and> odd q) then q + 1 else q)
      in if int (bit_length q') + e + int s > 1024 then (if n < 0 then NegInf else PosInf)
         else (case strip_zeros (sgn n * q') (e + int s) of (m, e') \<Rightarrow> Finite m e'))"

text \<open>\<^verbatim>\<open>x * 100\<close> for a float \<open>x\<close> (the integer 100 is the double 100.0), and
  \<^verbatim>\<open>int(x)\<close>, which truncates towards zero and raises on an infinity or a NaN.\<close>

definition times_100 :: "pyfloat \<Rightarrow> pyfloat" where
  "times_100 x = (case x of Finite m e \<Rightarrow> round_double (m * 100) e | _ \<Rightarrow> x)"

definition float_to_int :: "pyfloat \<Rightarrow> exn + int" where
  "float_to_int x =
     (case x of
        Finite m e \<Rightarrow> Inr (if 0 \<le> e then m * 2 ^ nat e else sgn m * (\<bar>m\<bar> div 2 ^ nat (- e)))
      | NaN \<Rightarrow> Inl ValueError
      | _ \<Rightarrow> Inl OverflowError)"

text \<open>The double that the literal \<^verbatim>\<open>0.3\<close> denotes.\<close>

definition k_locality :: pyfloat where
  "k_locality = Finite 5404319552844595 (- 54)"

text \<open>What the code does to the outside world, in the order it does it: a content
  fetch, a call of a logger, a line printed, a directory or a file written.\<close>

datatype event =
    Fetch string
  | LogInfo string
  | LogWarning string
  | Print string
  | PrintBanner
  | Mkdir string
  | WriteFile string string

section \<open>modules/utility.py\<close>

text \<open>
  The names bound in the module's namespace once it is imported: its imports
  (lines 1 to 10), \<^verbatim>\<open>logger\<close>, the class and \<^verbatim>\<open>main\<close>. A name used in a method
  that is neither a local nor one of these (nor a builtin, and \<^verbatim>\<open>aiofiles\<close> is no
  builtin) raises NameError when the line that uses it runs.
\<close>

definition utility_globals :: "string list" where
  "utility_globals =
     [''asyncio'', ''ipaddress'', ''logging'', ''chain'', ''List'', ''Set'', ''Tuple'',
      ''Optional'', ''aiohttp'', ''tldextract'', ''similarity'', ''Path'', ''logger'',
      ''UtilityFunctions'', ''main'']"

datatype ClientSession = OpenSession | ClosedSession

record UtilityFunctions =
  session :: "ClientSession option"

definition aenter :: "UtilityFunctions \<Rightarrow> UtilityFunctions" where
  "aenter u = u\<lparr>session := Some OpenSession\<rparr>"

definition aexit :: "UtilityFunctions \<Rightarrow> UtilityFunctions" where
  "aexit u = (case session u of None \<Rightarrow> u | Some _ \<Rightarrow> u\<lparr>session := Some ClosedSession\<rparr>)"

text \<open>
  \<open>net\<close> is the network: what \<^verbatim>\<open>session.get(url, ssl=False, timeout=3)\<close> followed by
  \<^verbatim>\<open>response.text()\<close> gives for a URL, a body or an exception, the same each time the
  URL is fetched during one call. Only \<open>ClientConnectorError\<close> and \<open>TimeoutError\<close> are
  caught; any other exception leaves the method.
\<close>

definition get_page_content ::
  "UtilityFunctions \<Rightarrow> (string \<Rightarrow> exn + string) \<Rightarrow> string \<Rightarrow> (exn + string option) \<times> event list"
where
  "get_page_content u net url =
     (case session u of
        None \<Rightarrow>
          (Inl (RuntimeError ''Session not initialized. Use 'async with' to create an instance.''), [])
      | Some ClosedSession \<Rightarrow> (Inl (RuntimeError ''Session is closed''), [])
      | Some OpenSession \<Rightarrow>
          (case net (''https://'' @ url) of
             Inr body \<Rightarrow> (Inr (Some body), [Fetch (''https://'' @ url)])
           | Inl (ClientConnectorError m) \<Rightarrow>
               (Inr None,
                [Fetch (''https://'' @ url), LogInfo (''Skipped | Error with '' @ url @ '': '' @ m)])
           | Inl (TimeoutError m) \<Rightarrow>
               (Inr None,
                [Fetch (''https://'' @ url), LogInfo (''Skipped | Error with '' @ url @ '': '' @ m)])
           | Inl e \<Rightarrow> (Inl e, [Fetch (''https://'' @ url)])))"

text \<open>
  \<open>similarity\<close> is the function of the \<^verbatim>\<open>html_similarity\<close> package, with its locality
  parameter \<open>k\<close> as third argument; it returns a float or raises.
  \<^verbatim>\<open>not check_content\<close> holds for \<^verbatim>\<open>None\<close> and for the empty string.
\<close>

definition compare_two_pages ::
  "UtilityFunctions \<Rightarrow> (string \<Rightarrow> exn + string) \<Rightarrow> (string \<Rightarrow> string \<Rightarrow> pyfloat \<Rightarrow> exn + pyfloat) \<Rightarrow>
   string \<Rightarrow> string \<Rightarrow> (exn + string \<times> int) \<times> event list"
where
  "compare_two_pages u net similarity original_content check_url =
     (case get_page_content u net check_url of
        (Inl e, tr) \<Rightarrow> (Inl e, tr)
      | (Inr None, tr) \<Rightarrow> (Inr (check_url, 0), tr)
      | (Inr (Some check_content), tr) \<Rightarrow>
          (if check_content = [] then (Inr (check_url, 0), tr)
           else (case similarity original_content check_content k_locality of
                   Inl e \<Rightarrow> (Inl e, tr)
                 | Inr x \<Rightarrow>
                     (case float_to_int (times_100 x) of
                        Inl e \<Rightarrow> (Inl e, tr)
                      | Inr similarity_score \<Rightarrow> (Inr (check_url, similarity_score), tr)))))"

text \<open>
  \<open>g\<close> is the module's namespace and \<open>waf_file\<close> what reading
  \<^verbatim>\<open>data/PublicWAFs.txt\<close> gives. Line 46 only builds a path; line 47 looks
  \<^verbatim>\<open>aiofiles\<close> up.
\<close>

definition parse_public_waf_ranges :: "string list \<Rightarrow> exn + string \<Rightarrow> exn + string list" where
  "parse_public_waf_ranges g waf_file =
     (if ''aiofiles'' \<in> set g
      then (case waf_file of
              Inl e \<Rightarrow> Inl e
            | Inr content \<Rightarrow> Inr (map strip (drop 1 (splitlines content))))
      else Inl (NameError ''aiofiles''))"

text \<open>
  \<open>ip_network\<close> and \<open>ip_address\<close> are the functions of the standard \<^verbatim>\<open>ipaddress\<close>
  module: the first gives the addresses a network iterates over, and both raise
  ValueError on a string they cannot parse. \<open>ips_to_check\<close> is the candidate set in
  the order the comprehension visits it.
\<close>

datatype ip = IPv4Address int | IPv6Address int

definition filter_out_waf_ips ::
  "(string \<Rightarrow> exn + ip list) \<Rightarrow> (string \<Rightarrow> exn + ip) \<Rightarrow> string list \<Rightarrow> exn + string \<Rightarrow>
   string list \<Rightarrow> exn + string set"
where
  "filter_out_waf_ips ip_network ip_address g waf_file ips_to_check =
     (case parse_public_waf_ranges g waf_file of
        Inl e \<Rightarrow> Inl e
      | Inr waf_ips_with_cidr \<Rightarrow>
          (case try_map ip_network waf_ips_with_cidr of
             Inl e \<Rightarrow> Inl e
           | Inr networks \<Rightarrow>
               (case try_map ip_address ips_to_check of
                  Inl e \<Rightarrow> Inl e
                | Inr addresses \<Rightarrow>
                    Inr (set (map fst (filter (\<lambda>(ip, a). a \<notin> set (concat networks))
                                         (zip ips_to_check addresses)))))))"


section \<open>waf-abuser.py\<close>

text \<open>
  The parsed command line. \<open>file_domains\<close> holds the lines of the opened file. The
  options as given are an \<open>argv\<close>; \<^verbatim>\<open>argparse\<close> exits when the required, mutually
  exclusive group is not given exactly once.
\<close>

record args =
  input_domain :: "string option"
  file_domains :: "string list option"
  similarity_rate :: int
  domains_only :: bool

record argv =
  opt_domain :: "string option"
  opt_file :: "string list option"
  opt_similarity_rate :: "int option"
  opt_domains_only :: bool

definition parse_arguments :: "argv \<Rightarrow> exn + args" where
  "parse_arguments v =
     (if (opt_domain v = None) = (opt_file v = None) then Inl SystemExit
      else Inr \<lparr>input_domain = opt_domain v,
                file_domains = opt_file v,
                similarity_rate = (case opt_similarity_rate v of None \<Rightarrow> 70 | Some r \<Rightarrow> r),
                domains_only = opt_domains_only v\<rparr>)"

text \<open>With neither option the source would return \<^verbatim>\<open>{None}\<close>; \<open>parse_arguments\<close>
  never produces such arguments.\<close>

definition get_input_domains :: "args \<Rightarrow> string set" where
  "get_input_domains a =
     (case file_domains a of
        Some lines \<Rightarrow> set (map strip lines)
      | None \<Rightarrow> (case input_domain a of Some d \<Rightarrow> {d} | None \<Rightarrow> {}))"

definition Fore_GREEN :: string where "Fore_GREEN = CHR 0x1B # ''[32m''"
definition Fore_RESET :: string where "Fore_RESET = CHR 0x1B # ''[39m''"

text \<open>
  The collaborators of the orchestrator. \<open>subdomain_gathering\<close> and \<open>ip_gathering\<close>
  are imported by name from modules that do not define them under these names, so
  they are taken as given; \<open>order\<close> and \<open>order_rows\<close> are the orders in which the
  interpreter iterates a set. The logger's level is INFO, so its \<^verbatim>\<open>debug\<close> calls
  emit nothing and are left out.
\<close>

record world =
  subdomain_gathering :: "string set \<Rightarrow> exn + string set"
  ip_gathering :: "string set \<Rightarrow> exn + string set"
  ip_network :: "string \<Rightarrow> exn + ip list"
  ip_address :: "string \<Rightarrow> exn + ip"
  module_globals :: "string list"
  waf_file :: "exn + string"
  net :: "string \<Rightarrow> exn + string"
  similarity :: "string \<Rightarrow> string \<Rightarrow> pyfloat \<Rightarrow> exn + pyfloat"
  order :: "string set \<Rightarrow> string list"
  order_rows :: "(string \<times> int) set \<Rightarrow> (string \<times> int) list"
  timestamp :: string
  project_dir :: string

definition find_subdomains :: "world \<Rightarrow> string set \<Rightarrow> (exn + string set) \<times> event list" where
  "find_subdomains w input_domains =
     (subdomain_gathering w input_domains, [LogInfo ''1. Gathering subdomains''])"

definition find_ips :: "world \<Rightarrow> string set \<Rightarrow> (exn + string set) \<times> event list" where
  "find_ips w subdomains = (ip_gathering w subdomains, [LogInfo ''2. Gathering IPs''])"

definition filter_ips :: "world \<Rightarrow> string set \<Rightarrow> (exn + string set) \<times> event list" where
  "filter_ips w ips =
     (filter_out_waf_ips (ip_network w) (ip_address w) (module_globals w) (waf_file w)
        (order w ips),
      [LogInfo ''3. Filtering out WAF IPs''])"

text \<open>The inner loop of \<open>compare_ips\<close>, over the filtered IPs, for one baseline.\<close>

fun compare_candidates ::
  "UtilityFunctions \<Rightarrow> (string \<Rightarrow> exn + string) \<Rightarrow> (string \<Rightarrow> string \<Rightarrow> pyfloat \<Rightarrow> exn + pyfloat) \<Rightarrow> int \<Rightarrow>
   string \<Rightarrow> (string \<times> int) set \<Rightarrow> string list \<Rightarrow> (exn + (string \<times> int) set) \<times> event list"
where
  "compare_candidates u nt sim rate domain_content similarity_output [] =
     (Inr similarity_output, [])"
| "compare_candidates u nt sim rate domain_content similarity_output (ip # ips) =
     (case compare_two_pages u nt sim domain_content ip of
        (Inl e, tr) \<Rightarrow> (Inl e, tr)
      | (Inr result, tr) \<Rightarrow>
          (case compare_candidates u nt sim rate domain_content
                  (if snd result > rate then insert result similarity_output
                   else similarity_output) ips of
             (r, tr') \<Rightarrow> (r, tr @ tr')))"

text \<open>The outer loop, over the input domains; a baseline that could not be fetched
  is skipped.\<close>

fun compare_domains ::
  "UtilityFunctions \<Rightarrow> (string \<Rightarrow> exn + string) \<Rightarrow> (string \<Rightarrow> string \<Rightarrow> pyfloat \<Rightarrow> exn + pyfloat) \<Rightarrow> int \<Rightarrow>
   string list \<Rightarrow> (string \<times> int) set \<Rightarrow> string list \<Rightarrow> (exn + (string \<times> int) set) \<times> event list"
where
  "compare_domains u nt sim rate filtered_ips similarity_output [] =
     (Inr similarity_output, [])"
| "compare_domains u nt sim rate filtered_ips similarity_output (domain # domains) =
     (case get_page_content u nt domain of
        (Inl e, tr) \<Rightarrow> (Inl e, tr)
      | (Inr None, tr) \<Rightarrow>
          (case compare_domains u nt sim rate filtered_ips similarity_output domains of
             (r, tr') \<Rightarrow> (r, tr @ tr'))
      | (Inr (Some domain_content), tr) \<Rightarrow>
          (case compare_candidates u nt sim rate domain_content similarity_output filtered_ips of
             (Inl e, tr1) \<Rightarrow> (Inl e, tr @ tr1)
           | (Inr similarity_output', tr1) \<Rightarrow>
               (case compare_domains u nt sim rate filtered_ips similarity_output' domains of
                  (r, tr2) \<Rightarrow> (r, tr @ tr1 @ tr2))))"

text \<open>\<open>input_domains\<close> and \<open>filtered_ips\<close> are the two sets in iteration order. The
  \<^verbatim>\<open>async with\<close> block opens the session before the loops.\<close>

definition compare_ips ::
  "args \<Rightarrow> UtilityFunctions \<Rightarrow> (string \<Rightarrow> exn + string) \<Rightarrow> (string \<Rightarrow> string \<Rightarrow> pyfloat \<Rightarrow> exn + pyfloat) \<Rightarrow>
   string list \<Rightarrow> string list \<Rightarrow> (exn + (string \<times> int) set) \<times> event list"
where
  "compare_ips a u nt sim input_domains filtered_ips =
     (case compare_domains (aenter u) nt sim (similarity_rate a) filtered_ips {} input_domains of
        (r, tr) \<Rightarrow> (r, LogInfo ''4. Comparing found IPs with original domain'' # tr))"

definition row_format :: "string \<times> int \<Rightarrow> string" where
  "row_format r = rjust15 (fst r) @ rjust15 (str_int (snd r) @ ''%'')"

definition output_results :: "args \<Rightarrow> string \<Rightarrow> string \<Rightarrow> (string \<times> int) list \<Rightarrow> event list" where
  "output_results a project stamp similarity_output =
     (if similarity_output = []
      then [LogWarning (''5. Found 0 pages with similarity > '' @ str_int (similarity_rate a) @ ''%''),
            LogInfo ''You can reduce the similarity percentage [--similarity_rate 70]'']
      else [LogInfo (''5. '' @ Fore_GREEN @ ''Found possible IPs:'' @ Fore_RESET),
            Print (rjust15 ''IP'' @ rjust15 ''Similarity'')]
           @ map (\<lambda>r. Print (row_format r)) similarity_output
           @ [Mkdir (project @ ''/output''),
              WriteFile (project @ ''/output/possible_WAF_bypass_'' @ stamp @ ''.txt'')
                (join [CHR 0x0A] (map row_format similarity_output))])"

definition run :: "args \<Rightarrow> UtilityFunctions \<Rightarrow> world \<Rightarrow> (exn + unit) \<times> event list" where
  "run a u w =
     (case find_subdomains w (get_input_domains a) of
        (Inl e, tr1) \<Rightarrow> (Inl e, PrintBanner # tr1)
      | (Inr subdomains, tr1) \<Rightarrow>
          (if domains_only a
           then (Inr (),
                 PrintBanner # tr1
                 @ [LogInfo (Fore_GREEN @ ''Found '' @ str_int (int (card subdomains))
                             @ '' domains/subdomains:'' @ Fore_RESET)]
                 @ map Print (order w subdomains)
                 @ [LogInfo (''File output: '' @ project_dir w @ ''/cache'')])
           else
             (case find_ips w subdomains of
                (Inl e, tr2) \<Rightarrow> (Inl e, PrintBanner # tr1 @ tr2)
              | (Inr ips, tr2) \<Rightarrow>
                  (case filter_ips w ips of
                     (Inl e, tr3) \<Rightarrow> (Inl e, PrintBanner # tr1 @ tr2 @ tr3)
                   | (Inr filtered_ips, tr3) \<Rightarrow>
                       (if filtered_ips = {}
                        then (Inr (),
                              PrintBanner # tr1 @ tr2 @ tr3
                              @ [LogInfo (Fore_GREEN @ ''Found 0 possible non-WAF IPs'' @ Fore_RESET)])
                        else
                          (case compare_ips a u (net w) (similarity w)
                                  (order w (get_input_domains a)) (order w filtered_ips) of
                             (Inl e, tr4) \<Rightarrow> (Inl e, PrintBanner # tr1 @ tr2 @ tr3 @ tr4)
                           | (Inr similarity_output, tr4) \<Rightarrow>
                               (Inr (),
                                PrintBanner # tr1 @ tr2 @ tr3 @ tr4
                                @ output_results a (project_dir w) (timestamp w)
                                    (order_rows w similarity_output))))))))"


section \<open>modules/subdomain_gathering.py\<close>

text \<open>A decoded JSON document, with Python's iteration and subscripting on it.\<close>

datatype json =
    JNull
  | JBool bool
  | JNumber int
  | JString string
  | JArray "json list"
  | JObject "(string \<times> json) list"

definition py_iter :: "json \<Rightarrow> exn + json list" where
  "py_iter j =
     (case j of
        JArray xs \<Rightarrow> Inr xs
      | JObject kvs \<Rightarrow> Inr (map (\<lambda>kv. JString (fst kv)) kvs)
      | JString s \<Rightarrow> Inr (map (\<lambda>c. JString [c]) s)
      | _ \<Rightarrow> Inl TypeError)"

definition getitem :: "json \<Rightarrow> string \<Rightarrow> exn + json" where
  "getitem j k =
     (case j of
        JObject kvs \<Rightarrow> (case map_of kvs k of None \<Rightarrow> Inl (KeyError k) | Some v \<Rightarrow> Inr v)
      | _ \<Rightarrow> Inl TypeError)"

text \<open>
  The outside of the module: what each source answers for a domain (a decoded
  response or an exception raised by the request), the two libraries used on the
  answers, the clock, and \<open>get_top_domains\<close>, which the module imports from
  \<^verbatim>\<open>modules.utility\<close> as a module-level function that is not defined there.
  \<open>dnsdumpster_cookie\<close> is \<^verbatim>\<open>str(cookies.get('csrftoken'))\<close> after the first request,
  \<open>soup_td_texts\<close> the texts of the \<^verbatim>\<open>td\<close> cells of class \<^verbatim>\<open>col-md-4\<close>, and
  \<open>strftime_now n\<close> the formatted time at the \<open>n\<close>-th reading of the clock.
\<close>

record sources =
  dnsdumpster_cookie :: "exn + string"
  dnsdumpster_post :: "string \<Rightarrow> string \<Rightarrow> exn + string"
  soup_td_texts :: "string \<Rightarrow> string list"
  certspotter_get :: "string \<Rightarrow> exn + json"
  hackertarget_get :: "string \<Rightarrow> exn + string"
  crtsh_get :: "string \<Rightarrow> exn + json"
  get_top_domains :: "string list \<Rightarrow> exn + string list"
  json_dumps :: "json \<Rightarrow> string"
  strftime_now :: "nat \<Rightarrow> string"
  cache_dir :: string

text \<open>The file system as the list of writes made so far, and the number of clock
  readings made so far.\<close>

record disk =
  written :: "(string \<times> string) list"
  clock_reads :: nat

definition path_join :: "string \<Rightarrow> string \<Rightarrow> string" where
  "path_join a b =
     (if startswith ''/'' b then b
      else if a = [] \<or> last a = CHR ''/'' then a @ b
      else a @ ''/'' @ b)"

text \<open>\<open>domains\<close> is the collection as a list; the file holds it sorted. The
  directories were made by \<^verbatim>\<open>ensure_cache_dirs\<close>, and a write is taken to succeed.\<close>

definition write_to_cache ::
  "sources \<Rightarrow> string \<Rightarrow> string \<Rightarrow> string \<Rightarrow> string list \<Rightarrow> disk \<Rightarrow> disk"
where
  "write_to_cache src subdir domain response domains d =
     (let stamp = strftime_now src (clock_reads d);
          cache_path = path_join (cache_dir src) subdir
      in \<lparr>written = written d
             @ [(path_join cache_path (domain @ ''_'' @ stamp @ ''_response.txt''), response),
                (path_join cache_path (domain @ ''_'' @ stamp @ ''_domains.txt''),
                 join [CHR 0x0A] (sort domains))],
           clock_reads = Suc (clock_reads d)\<rparr>)"

definition dnsdumpster_scraping ::
  "sources \<Rightarrow> string \<Rightarrow> disk \<Rightarrow> (exn + string list) \<times> disk"
where
  "dnsdumpster_scraping src domain d =
     (case dnsdumpster_cookie src of
        Inl e \<Rightarrow> (Inl e, d)
      | Inr cookie \<Rightarrow>
          (case split ''Set-Cookie: csrftoken='' cookie of
             _ # csrf_token # _ \<Rightarrow>
               (case dnsdumpster_post src csrf_token domain of
                  Inl e \<Rightarrow> (Inl e, d)
                | Inr response_text \<Rightarrow>
                    (let domains =
                           map (\<lambda>found. rstrip_chars ''.''
                                  (strip_chars ''1234567890 .'' (hd (split ''HTTP'' found))))
                               (soup_td_texts src response_text)
                     in (Inr domains,
                         write_to_cache src ''dnsdumpster_req_logs'' domain response_text domains d)))
           | _ \<Rightarrow> (Inl IndexError, d)))"

text \<open>The comprehension of \<open>certspotter_scraping\<close>: every name of every item, with
  its leading \<^verbatim>\<open>*\<close> and \<^verbatim>\<open>.\<close> characters removed.\<close>

definition certspotter_names :: "json \<Rightarrow> exn + string list" where
  "certspotter_names item =
     (case getitem item ''dns_names'' of
        Inl e \<Rightarrow> Inl e
      | Inr names \<Rightarrow>
          (case py_iter names of
             Inl e \<Rightarrow> Inl e
           | Inr dns_names \<Rightarrow>
               try_map (\<lambda>dns_name. case dns_name of
                                      JString s \<Rightarrow> Inr (lstrip_chars ''*.'' s)
                                    | _ \<Rightarrow> Inl AttributeError)
                       dns_names))"

definition certspotter_domains :: "json \<Rightarrow> exn + string set" where
  "certspotter_domains response_json =
     (case py_iter response_json of
        Inl e \<Rightarrow> Inl e
      | Inr items \<Rightarrow>
          (case try_map certspotter_names items of
             Inl e \<Rightarrow> Inl e
           | Inr names \<Rightarrow> Inr (set (concat names))))"

definition certspotter_scraping ::
  "sources \<Rightarrow> string \<Rightarrow> disk \<Rightarrow> (exn + string set) \<times> disk"
where
  "certspotter_scraping src domain d =
     (case certspotter_get src domain of
        Inl e \<Rightarrow> (Inl e, d)
      | Inr response_json \<Rightarrow>
          (case certspotter_domains response_json of
             Inl e \<Rightarrow> (Inl e, d)
           | Inr domains \<Rightarrow>
               (Inr domains,
                write_to_cache src ''certspotter_req_logs'' domain (json_dumps src response_json)
                  (sorted_list_of_set domains) d)))"

definition hackertarget_scraping ::
  "sources \<Rightarrow> string \<Rightarrow> disk \<Rightarrow> (exn + string set) \<times> disk"
where
  "hackertarget_scraping src domain d =
     (case hackertarget_get src domain of
        Inl e \<Rightarrow> (Inl e, d)
      | Inr response_text \<Rightarrow>
          (if contains ''API count exceeded'' response_text then (Inr {}, d)
           else
             (let domains = set (map (\<lambda>line. hd (split '','' line)) (splitlines response_text))
              in (Inr domains,
                  write_to_cache src ''hackertarget_req_logs'' domain response_text
                    (sorted_list_of_set domains) d))))"

text \<open>The comprehension of \<open>crtsh_scraping\<close>: the lines of every item's
  \<^verbatim>\<open>name_value\<close> that do not start with \<^verbatim>\<open>*.\<close>.\<close>

definition crtsh_names :: "json \<Rightarrow> exn + string list" where
  "crtsh_names item =
     (case getitem item ''name_value'' of
        Inl e \<Rightarrow> Inl e
      | Inr (JString s) \<Rightarrow> Inr (filter (\<lambda>name. \<not> startswith ''*.'' name) (split [CHR 0x0A] s))
      | Inr _ \<Rightarrow> Inl AttributeError)"

definition crtsh_domains :: "json \<Rightarrow> exn + string set" where
  "crtsh_domains response_json =
     (case py_iter response_json of
        Inl e \<Rightarrow> Inl e
      | Inr items \<Rightarrow>
          (case try_map crtsh_names items of
             Inl e \<Rightarrow> Inl e
           | Inr names \<Rightarrow> Inr (set (concat names))))"

definition crtsh_scraping ::
  "sources \<Rightarrow> string \<Rightarrow> disk \<Rightarrow> (exn + string set) \<times> disk"
where
  "crtsh_scraping src domain d =
     (case crtsh_get src domain of
        Inl e \<Rightarrow> (Inl e, d)
      | Inr response_json \<Rightarrow>
          (case crtsh_domains response_json of
             Inl e \<Rightarrow> (Inl e, d)
           | Inr domains \<Rightarrow>
               (Inr domains,
                write_to_cache src ''crtsh_req_logs'' domain (json_dumps src response_json)
                  (sorted_list_of_set domains) d)))"

definition write_subdomain_results :: "sources \<Rightarrow> string \<Rightarrow> string set \<Rightarrow> disk \<Rightarrow> disk" where
  "write_subdomain_results src domain subdomains d =
     \<lparr>written = written d
        @ [(path_join (cache_dir src)
              (domain @ ''_'' @ strftime_now src (clock_reads d) @ ''_subdomains.txt''),
            join [CHR 0x0A] (sorted_list_of_set subdomains))],
      clock_reads = Suc (clock_reads d)\<rparr>"

definition write_all_domains :: "sources \<Rightarrow> string set \<Rightarrow> disk \<Rightarrow> disk" where
  "write_all_domains src all_domains d =
     \<lparr>written = written d
        @ [(path_join (cache_dir src)
              (''ALL_DOMAINS_'' @ strftime_now src (clock_reads d) @ ''.txt''),
            join [CHR 0x0A] (sorted_list_of_set all_domains))],
      clock_reads = Suc (clock_reads d)\<rparr>"

text \<open>
  \<^verbatim>\<open>asyncio.gather(*tasks)\<close> without \<^verbatim>\<open>return_exceptions\<close>: the five results in the
  order of the tasks, or the exception of a task that raised. The tasks are taken in
  the order of the list, one schedule among those the event loop may choose; the
  writes of tasks still pending when one has raised are not recorded.
\<close>

definition gather_tasks :: "sources \<Rightarrow> string \<Rightarrow> disk \<Rightarrow> (exn + string set list) \<times> disk" where
  "gather_tasks src domain d =
     (case dnsdumpster_scraping src domain d of
        (Inl e, d1) \<Rightarrow> (Inl e, d1)
      | (Inr r1, d1) \<Rightarrow>
     (case certspotter_scraping src domain d1 of
        (Inl e, d2) \<Rightarrow> (Inl e, d2)
      | (Inr r2, d2) \<Rightarrow>
     (case hackertarget_scraping src domain d2 of
        (Inl e, d3) \<Rightarrow> (Inl e, d3)
      | (Inr r3, d3) \<Rightarrow>
     (case crtsh_scraping src domain d3 of
        (Inl e, d4) \<Rightarrow> (Inl e, d4)
      | (Inr r4, d4) \<Rightarrow>
     (case get_top_domains src [domain] of
        Inl e \<Rightarrow> (Inl e, d4)
      | Inr r5 \<Rightarrow> (Inr [set r1, r2, r3, r4, set r5], d4))))))"

text \<open>The loop of \<open>gather_subdomains\<close> over the input domains, in iteration order.\<close>

fun gather_loop ::
  "sources \<Rightarrow> string set \<Rightarrow> string list \<Rightarrow> disk \<Rightarrow> (exn + string set) \<times> disk"
where
  "gather_loop src all_domains [] d = (Inr all_domains, d)"
| "gather_loop src all_domains (domain # domains) d =
     (case gather_tasks src domain d of
        (Inl e, d') \<Rightarrow> (Inl e, d')
      | (Inr results, d') \<Rightarrow>
          (let subdomains = insert domain (\<Union> (set results))
           in gather_loop src (all_domains \<union> subdomains) domains
                (write_subdomain_results src domain subdomains d')))"

definition gather_subdomains :: "sources \<Rightarrow> string list \<Rightarrow> disk \<Rightarrow> (exn + string set) \<times> disk" where
  "gather_subdomains src domains d =
     (case gather_loop src {} domains d of
        (Inl e, d') \<Rightarrow> (Inl e, d')
      | (Inr all_domains, d') \<Rightarrow> (Inr all_domains, write_all_domains src all_domains d'))"

section \<open>Concrete scenarios\<close>

text \<open>A utility object outside and inside its \<^verbatim>\<open>async with\<close> block, and a stand-in
  for the similarity library that scores equal contents 1 and others 0.\<close>

definition fresh_utility :: UtilityFunctions where
  "fresh_utility = \<lparr>session = None\<rparr>"

definition entered_utility :: UtilityFunctions where
  "entered_utility = \<lparr>session = Some OpenSession\<rparr>"

definition equal_similarity :: "string \<Rightarrow> string \<Rightarrow> pyfloat \<Rightarrow> exn + pyfloat" where
  "equal_similarity a b k = Inr (if a = b then Finite 1 0 else Finite 0 0)"

text \<open>Scenario C: the candidate serves the baseline's content.\<close>

definition net_same :: "string \<Rightarrow> exn + string" where
  "net_same url =
     (if url = ''https://example.com'' \<or> url = ''https://203.0.113.7''
      then Inr ''<html><body>origin</body></html>''
      else Inl (ClientConnectorError ''Cannot connect to host''))"

text \<open>Scenario D: the candidate's fetch times out.\<close>

definition net_timeout :: "string \<Rightarrow> exn + string" where
  "net_timeout url =
     (if url = ''https://example.com'' then Inr ''<html><body>origin</body></html>''
      else Inl (TimeoutError []))"

text \<open>The server of the candidate closes the connection: a connection error of a
  class that \<open>get_page_content\<close> does not catch.\<close>

definition net_disconnect :: "string \<Rightarrow> exn + string" where
  "net_disconnect url =
     (if url = ''https://example.com'' then Inr ''<html><body>origin</body></html>''
      else Inl (ServerDisconnectedError ''Server disconnected''))"

text \<open>Baseline and candidate both answer with an empty body.\<close>

definition net_blank :: "string \<Rightarrow> exn + string" where
  "net_blank url = Inr []"

definition args_default :: args where
  "args_default =
     \<lparr>input_domain = Some ''example.com'', file_domains = None, similarity_rate = 70,
      domains_only = False\<rparr>"

definition argv_domain :: argv where
  "argv_domain =
     \<lparr>opt_domain = Some ''example.com'', opt_file = None, opt_similarity_rate = None,
      opt_domains_only = False\<rparr>"

text \<open>Scenario B: the reference list and the two candidates.\<close>

definition waf_file_B :: "exn + string" where
  "waf_file_B = Inr (''# ranges'' @ [CHR 0x0A] @ ''1.2.3.0/24'' @ [CHR 0x0A])"

definition candidates_B :: "string list" where
  "candidates_B = [''1.2.3.5'', ''5.6.7.8'']"

text \<open>
  A stand-in for the \<^verbatim>\<open>ipaddress\<close> module on IPv4 strings in dotted-quad form with an
  optional prefix length, used by the scenarios only: a network is the list of its
  addresses, and a string that does not parse, or a network with host bits set, gives
  ValueError.
\<close>

definition is_digit :: "char \<Rightarrow> bool" where
  "is_digit c = (48 \<le> (of_char c :: int) \<and> (of_char c :: int) \<le> 57)"

definition parse_decimal :: "string \<Rightarrow> int option" where
  "parse_decimal s =
     (if s = [] \<or> \<not> list_all is_digit s then None
      else Some (foldl (\<lambda>n c. 10 * n + (of_char c - 48)) 0 s))"

definition parse_octet :: "string \<Rightarrow> int option" where
  "parse_octet s =
     (case parse_decimal s of
        None \<Rightarrow> None
      | Some n \<Rightarrow> (if 3 < length s \<or> 255 < n \<or> (1 < length s \<and> hd s = CHR ''0'') then None
                   else Some n))"

definition ipv4_int :: "string \<Rightarrow> int option" where
  "ipv4_int s =
     (case map parse_octet (split ''.'' s) of
        [Some a, Some b, Some c, Some d] \<Rightarrow> Some (((a * 256 + b) * 256 + c) * 256 + d)
      | _ \<Rightarrow> None)"

definition ipv4_address :: "string \<Rightarrow> exn + ip" where
  "ipv4_address s = (case ipv4_int s of Some n \<Rightarrow> Inr (IPv4Address n) | None \<Rightarrow> Inl ValueError)"

definition ipv4_block :: "int \<Rightarrow> int \<Rightarrow> exn + ip list" where
  "ipv4_block n len =
     (if len \<le> 32 \<and> n mod 2 ^ nat (32 - len) = 0
      then Inr (map IPv4Address [n .. n + 2 ^ nat (32 - len) - 1])
      else Inl ValueError)"

definition ipv4_network :: "string \<Rightarrow> exn + ip list" where
  "ipv4_network s =
     (case split ''/'' s of
        [a] \<Rightarrow> (case ipv4_int a of Some n \<Rightarrow> ipv4_block n 32 | None \<Rightarrow> Inl ValueError)
      | [a, l] \<Rightarrow>
          (case (ipv4_int a, parse_decimal l) of
             (Some n, Some len) \<Rightarrow> ipv4_block n len
           | _ \<Rightarrow> Inl ValueError)
      | _ \<Rightarrow> Inl ValueError)"

text \<open>A run in which the only resolved address lies in the listed range, in a
  namespace where \<^verbatim>\<open>aiofiles\<close> is bound.\<close>

definition found_subdomains :: "string set \<Rightarrow> exn + string set" where
  "found_subdomains domains = Inr (insert ''www.example.com'' domains)"

definition resolved_in_waf :: "string set \<Rightarrow> exn + string set" where
  "resolved_in_waf hosts = Inr {''1.2.3.5''}"

definition ascending :: "string set \<Rightarrow> string list" where
  "ascending S = sorted_list_of_set S"

definition ascending_rows :: "(string \<times> int) set \<Rightarrow> (string \<times> int) list" where
  "ascending_rows S = sorted_list_of_set S"

definition world_all_waf :: world where
  "world_all_waf =
     \<lparr>subdomain_gathering = found_subdomains,
      ip_gathering = resolved_in_waf,
      ip_network = ipv4_network,
      ip_address = ipv4_address,
      module_globals = ''aiofiles'' # utility_globals,
      waf_file = waf_file_B,
      net = net_same,
      similarity = equal_similarity,
      order = ascending,
      order_rows = ascending_rows,
      timestamp = ''20240101_000000'',
      project_dir = ''/opt/waf-abuser''\<rparr>"

definition is_fetch :: "event \<Rightarrow> bool" where
  "is_fetch e = (case e of Fetch url \<Rightarrow> True | _ \<Rightarrow> False)"

text \<open>The two files of one audit record: the raw response and the derived names,
  stamped with the \<open>n\<close>-th clock reading.\<close>

definition audit_record ::
  "sources \<Rightarrow> string \<Rightarrow> string \<Rightarrow> nat \<Rightarrow> string \<Rightarrow> string list \<Rightarrow> (string \<times> string) list"
where
  "audit_record src subdir domain n response names =
     [(path_join (path_join (cache_dir src) subdir)
         (domain @ ''_'' @ strftime_now src n @ ''_response.txt''), response),
      (path_join (path_join (cache_dir src) subdir)
         (domain @ ''_'' @ strftime_now src n @ ''_domains.txt''), join [CHR 0x0A] names)]"

text \<open>Sources that all answer for \<^verbatim>\<open>example.com\<close>; the serialiser and the HTML parser
  are stand-ins.\<close>

definition dd_cookie :: "exn + string" where
  "dd_cookie = Inr ''Set-Cookie: csrftoken=Zq3'' "

definition dd_page :: "string \<Rightarrow> string \<Rightarrow> exn + string" where
  "dd_page token domain = Inr ''<table><td class=col-md-4>a.example.com<br>HTTP: nginx</td></table>''"

definition dd_cells :: "string \<Rightarrow> string list" where
  "dd_cells page = [''a.example.comHTTP: nginx'']"

definition cs_answer :: "string \<Rightarrow> exn + json" where
  "cs_answer domain =
     Inr (JArray [JObject [(''dns_names'', JArray [JString ''*.example.com'', JString ''b.example.com''])]])"

definition ht_answer :: "string \<Rightarrow> exn + string" where
  "ht_answer domain =
     Inr (''c.example.com,93.184.216.34'' @ [CHR 0x0A] @ ''d.example.com,93.184.216.35'' @ [CHR 0x0A])"

definition crt_answer :: "string \<Rightarrow> exn + json" where
  "crt_answer domain =
     Inr (JArray [JObject [(''name_value'', JString (''*.example.com'' @ [CHR 0x0A] @ ''www.example.com''))]])"

definition base_domains :: "string list \<Rightarrow> exn + string list" where
  "base_domains domains = Inr [''example.com'']"

definition dumps_elided :: "json \<Rightarrow> string" where
  "dumps_elided j = ''[...]''"

definition stamp_at :: "nat \<Rightarrow> string" where
  "stamp_at n = ''20240101_00000'' @ str_nat n"

definition sources_up :: sources where
  "sources_up =
     \<lparr>dnsdumpster_cookie = dd_cookie,
      dnsdumpster_post = dd_page,
      soup_td_texts = dd_cells,
      certspotter_get = cs_answer,
      hackertarget_get = ht_answer,
      crtsh_get = crt_answer,
      get_top_domains = base_domains,
      json_dumps = dumps_elided,
      strftime_now = stamp_at,
      cache_dir = ''/opt/cache''\<rparr>"

definition blank_disk :: disk where
  "blank_disk = \<lparr>written = [], clock_reads = 0\<rparr>"

text \<open>One source raising while the others answer: the request to certspotter
  fails to connect; the request to hackertarget times out.\<close>

definition cs_unreachable :: "string \<Rightarrow> exn + json" where
  "cs_unreachable domain = Inl (ClientConnectorError ''Cannot connect to host api.certspotter.com'')"

definition sources_cs_down :: sources where
  "sources_cs_down = sources_up\<lparr>certspotter_get := cs_unreachable\<rparr>"

definition ht_hangs :: "string \<Rightarrow> exn + string" where
  "ht_hangs domain = Inl (TimeoutError [])"

definition sources_ht_down :: sources where
  "sources_ht_down = sources_up\<lparr>hackertarget_get := ht_hangs\<rparr>"

text \<open>dnsdumpster setting no token cookie, so that the string of the missing cookie
  has no second part, and crt.sh answering with an error object in place of the list.\<close>

definition dd_no_cookie :: "exn + string" where
  "dd_no_cookie = Inr ''None''"

definition sources_dd_down :: sources where
  "sources_dd_down = sources_up\<lparr>dnsdumpster_cookie := dd_no_cookie\<rparr>"

definition crt_malformed :: "string \<Rightarrow> exn + json" where
  "crt_malformed domain = Inr (JObject [(''error'', JString ''rate limited'')])"

definition sources_crt_down :: sources where
  "sources_crt_down = sources_up\<lparr>crtsh_get := crt_malformed\<rparr>"

text \<open>hackertarget answering with its rate-limit marker, and crt.sh answering with
  a wildcard name only.\<close>

definition ht_limited :: "string \<Rightarrow> exn + string" where
  "ht_limited domain = Inr ''API count exceeded - Increase Quota with Membership''"

definition sources_ht_limited :: sources where
  "sources_ht_limited = sources_up\<lparr>hackertarget_get := ht_limited\<rparr>"

definition crt_wildcard :: "string \<Rightarrow> exn + json" where
  "crt_wildcard domain = Inr (JArray [JObject [(''name_value'', JString ''*.example.com'')]])"

definition sources_crt_wildcard :: sources where
  "sources_crt_wildcard = sources_up\<lparr>crtsh_get := crt_wildcard\<rparr>"

text \<open>What each task of the fan-out returns, as a value of its own: the writes a
  task makes do not change it.\<close>

definition dnsdumpster_answer :: "sources \<Rightarrow> string \<Rightarrow> exn + string list" where
  "dnsdumpster_answer src domain = fst (dnsdumpster_scraping src domain blank_disk)"

definition certspotter_answer :: "sources \<Rightarrow> string \<Rightarrow> exn + string set" where
  "certspotter_answer src domain = fst (certspotter_scraping src domain blank_disk)"

definition hackertarget_answer :: "sources \<Rightarrow> string \<Rightarrow> exn + string set" where
  "hackertarget_answer src domain = fst (hackertarget_scraping src domain blank_disk)"

definition crtsh_answer :: "sources \<Rightarrow> string \<Rightarrow> exn + string set" where
  "crtsh_answer src domain = fst (crtsh_scraping src domain blank_disk)"

definition tasks_answer :: "sources \<Rightarrow> string \<Rightarrow> exn + string set list" where
  "tasks_answer src domain = fst (gather_tasks src domain blank_disk)"

section \<open>The WAF range filter\<close>

text \<open>
  Claim C10. Every call of the WAF range filter raises NameError for \<^verbatim>\<open>aiofiles\<close>,
  whatever the reference file holds, whatever the candidates are and whatever the
  address library would answer: the loader fails at its lookup of the name, so no
  range is parsed and no candidate is examined.
\<close>

theorem filter_out_waf_ips_raises_NameError:
  "filter_out_waf_ips parse_net parse_addr utility_globals content ips
     = Inl (NameError ''aiofiles'')"
  by (simp add: filter_out_waf_ips_def parse_public_waf_ranges_def utility_globals_def)

text \<open>
  Claim C1. The filter is meant to return the candidates that no listed range
  covers. On Scenario B (range \<^verbatim>\<open>1.2.3.0/24\<close>, candidates \<^verbatim>\<open>1.2.3.5\<close> and
  \<^verbatim>\<open>5.6.7.8\<close>) the module as it stands raises NameError instead of returning
  \<^verbatim>\<open>{5.6.7.8}\<close>.
\<close>

theorem scenario_B_raises_NameError:
  "filter_out_waf_ips ipv4_network ipv4_address utility_globals waf_file_B candidates_B
     = Inl (NameError ''aiofiles'')
   \<and> filter_out_waf_ips ipv4_network ipv4_address utility_globals waf_file_B candidates_B
     \<noteq> Inr {''5.6.7.8''}"
  by (simp add: filter_out_waf_ips_def parse_public_waf_ranges_def utility_globals_def)

text \<open>With \<^verbatim>\<open>aiofiles\<close> bound, the rest of the filter gives the scenario's answer.\<close>

lemma scenario_B_with_aiofiles_bound:
  "filter_out_waf_ips ipv4_network ipv4_address (''aiofiles'' # utility_globals) waf_file_B
     candidates_B = Inr {''5.6.7.8''}"
  by code_simp

section \<open>The similarity scorer\<close>

lemma get_page_content_failed:
  assumes "nt (''https://'' @ url) = Inl (ClientConnectorError m)
           \<or> nt (''https://'' @ url) = Inl (TimeoutError m)"
    and "session u = Some OpenSession"
  shows "fst (get_page_content u nt url) = Inr None"
  using assms by (auto simp: get_page_content_def)

lemma compare_two_pages_failed:
  assumes "nt (''https://'' @ url) = Inl (ClientConnectorError m)
           \<or> nt (''https://'' @ url) = Inl (TimeoutError m)"
    and "session u = Some OpenSession"
  shows "fst (compare_two_pages u nt sim c url) = Inr (url, 0)"
  using assms by (auto simp: compare_two_pages_def get_page_content_def)

text \<open>An exception of another class is not caught and leaves the comparison.\<close>

lemma other_fetch_exception_propagates:
  assumes "nt (''https://'' @ url) = Inl (OtherError m)" and "session u = Some OpenSession"
  shows "fst (compare_two_pages u nt sim c url) = Inl (OtherError m)"
  using assms by (simp add: compare_two_pages_def get_page_content_def)

lemma compare_two_pages_url:
  "fst (compare_two_pages u nt sim c url) = Inr (x, s) \<Longrightarrow> x = url"
  by (auto simp: compare_two_pages_def split: prod.splits sum.splits option.splits if_splits)

lemma compare_candidates_out:
  "compare_candidates u nt sim rate c S ips = (Inr out, tr) \<Longrightarrow>
   out = S \<union> {r. \<exists>ip \<in> set ips. fst (compare_two_pages u nt sim c ip) = Inr r \<and> snd r > rate}"
proof (induction ips arbitrary: S out tr)
  case Nil
  then show ?case by simp
next
  case (Cons ip ips)
  then show ?case
    by (auto split: prod.splits sum.splits if_splits)
qed

lemma compare_domains_out:
  "compare_domains u nt sim rate ips S ds = (Inr out, tr) \<Longrightarrow>
   out = S \<union> {r. \<exists>d \<in> set ds. \<exists>c. fst (get_page_content u nt d) = Inr (Some c) \<and>
                (\<exists>ip \<in> set ips. fst (compare_two_pages u nt sim c ip) = Inr r \<and> snd r > rate)}"
proof (induction ds arbitrary: S out tr)
  case Nil
  then show ?case by simp
next
  case (Cons d ds)
  show ?case
  proof (cases "get_page_content u nt d")
    case (Pair res tr0)
    show ?thesis
    proof (cases res)
      case (Inl e)
      with Pair Cons.prems show ?thesis by simp
    next
      case (Inr oc)
      show ?thesis
      proof (cases oc)
        case None
        with Pair Inr Cons.prems obtain tr' where
          "compare_domains u nt sim rate ips S ds = (Inr out, tr')"
          by (auto split: prod.splits)
        from Cons.IH[OF this] Pair Inr None show ?thesis by auto
      next
        case (Some c)
        with Pair Inr Cons.prems obtain S' tr1 tr2 where
          a: "compare_candidates u nt sim rate c S ips = (Inr S', tr1)" and
          b: "compare_domains u nt sim rate ips S' ds = (Inr out, tr2)"
          by (auto split: prod.splits sum.splits)
        from compare_candidates_out[OF a] Cons.IH[OF b] Pair Inr Some show ?thesis by auto
      qed
    qed
  qed
qed

lemma compare_ips_out:
  assumes "fst (compare_ips a u nt sim ds ips) = Inr out"
  shows "(ip, s) \<in> out \<longleftrightarrow>
           (ip \<in> set ips \<and>
            (\<exists>d \<in> set ds. \<exists>c. fst (get_page_content (aenter u) nt d) = Inr (Some c) \<and>
               fst (compare_two_pages (aenter u) nt sim c ip) = Inr (ip, s)) \<and>
            s > similarity_rate a)"
proof -
  from assms obtain tr where
    "compare_domains (aenter u) nt sim (similarity_rate a) ips {} ds = (Inr out, tr)"
    by (auto simp: compare_ips_def split: prod.splits)
  from compare_domains_out[OF this]
  have out: "out = {r. \<exists>d \<in> set ds. \<exists>c. fst (get_page_content (aenter u) nt d) = Inr (Some c) \<and>
                (\<exists>ip \<in> set ips. fst (compare_two_pages (aenter u) nt sim c ip) = Inr r \<and>
                   snd r > similarity_rate a)}"
    by simp
  show ?thesis
  proof
    assume "(ip, s) \<in> out"
    with out obtain d c ip' where d: "d \<in> set ds"
      and c: "fst (get_page_content (aenter u) nt d) = Inr (Some c)"
      and i: "ip' \<in> set ips"
      and r: "fst (compare_two_pages (aenter u) nt sim c ip') = Inr (ip, s)"
      and g: "s > similarity_rate a"
      by auto
    from compare_two_pages_url[OF r] have "ip = ip'" .
    with d c i r g
    show "ip \<in> set ips \<and>
            (\<exists>d \<in> set ds. \<exists>c. fst (get_page_content (aenter u) nt d) = Inr (Some c) \<and>
               fst (compare_two_pages (aenter u) nt sim c ip) = Inr (ip, s)) \<and>
            s > similarity_rate a"
      by blast
  next
    assume "ip \<in> set ips \<and>
            (\<exists>d \<in> set ds. \<exists>c. fst (get_page_content (aenter u) nt d) = Inr (Some c) \<and>
               fst (compare_two_pages (aenter u) nt sim c ip) = Inr (ip, s)) \<and>
            s > similarity_rate a"
    then obtain d c where "ip \<in> set ips" "d \<in> set ds"
      "fst (get_page_content (aenter u) nt d) = Inr (Some c)"
      "fst (compare_two_pages (aenter u) nt sim c ip) = Inr (ip, s)" "s > similarity_rate a"
      by blast
    then have "\<exists>d \<in> set ds. \<exists>c. fst (get_page_content (aenter u) nt d) = Inr (Some c) \<and>
                (\<exists>ip' \<in> set ips. fst (compare_two_pages (aenter u) nt sim c ip') = Inr (ip, s) \<and>
                   snd (ip, s) > similarity_rate a)"
      by (intro bexI[of _ d] exI[of _ c] conjI bexI[of _ ip]) simp_all
    with out show "(ip, s) \<in> out" by simp
  qed
qed

text \<open>
  Claim C3, as stated, fails: when the candidate's server closes the connection, the
  fetch raises a connection error that is not a \<open>ClientConnectorError\<close>;
  \<open>get_page_content\<close> does not catch it, so the comparison raises it, and so does
  \<open>compare_ips\<close>.
\<close>

theorem server_disconnect_is_raised:
  "net_disconnect (''https://'' @ ''203.0.113.7'')
     = Inl (ServerDisconnectedError ''Server disconnected'')
   \<and> fst (compare_two_pages entered_utility net_disconnect equal_similarity
            ''<html><body>origin</body></html>'' ''203.0.113.7'')
       = Inl (ServerDisconnectedError ''Server disconnected'')
   \<and> fst (compare_ips args_default fresh_utility net_disconnect equal_similarity
            [''example.com''] [''203.0.113.7''])
       = Inl (ServerDisconnectedError ''Server disconnected'')"
  by (simp add: compare_ips_def aenter_def fresh_utility_def entered_utility_def
        net_disconnect_def args_default_def compare_two_pages_def get_page_content_def)

text \<open>
  Claim C3, amended. When the fetch of a candidate fails with a
  \<open>ClientConnectorError\<close> or a \<open>TimeoutError\<close>, \<open>compare_two_pages\<close> returns the
  candidate with score 0 and raises nothing, and for every threshold from 0 to 100 no
  pair for that candidate is in the set \<open>compare_ips\<close> returns. When the fetch fails
  with an exception of any other class, \<open>compare_two_pages\<close> raises that exception.
\<close>

theorem fetch_failure_scores_zero_or_is_raised:
  "((nt (''https://'' @ ip) = Inl (ClientConnectorError m)
      \<or> nt (''https://'' @ ip) = Inl (TimeoutError m)) \<and>
     session u = Some OpenSession
       \<longrightarrow> fst (compare_two_pages u nt sim c ip) = Inr (ip, 0))
   \<and> ((nt (''https://'' @ ip) = Inl (ClientConnectorError m)
        \<or> nt (''https://'' @ ip) = Inl (TimeoutError m)) \<and>
       0 \<le> similarity_rate a \<and> similarity_rate a \<le> 100 \<and>
       fst (compare_ips a u' nt sim ds ips) = Inr out
         \<longrightarrow> (ip, s) \<notin> out)
   \<and> (nt (''https://'' @ ip) = Inl e \<and>
       (\<forall>m'. e \<noteq> ClientConnectorError m') \<and> (\<forall>m'. e \<noteq> TimeoutError m') \<and>
       session u = Some OpenSession
         \<longrightarrow> fst (compare_two_pages u nt sim c ip) = Inl e)"
proof (intro conjI impI)
  assume "(nt (''https://'' @ ip) = Inl (ClientConnectorError m)
            \<or> nt (''https://'' @ ip) = Inl (TimeoutError m)) \<and>
          session u = Some OpenSession"
  then show "fst (compare_two_pages u nt sim c ip) = Inr (ip, 0)"
    using compare_two_pages_failed[of nt ip m u sim c] by blast
next
  assume h: "(nt (''https://'' @ ip) = Inl (ClientConnectorError m)
               \<or> nt (''https://'' @ ip) = Inl (TimeoutError m)) \<and>
             0 \<le> similarity_rate a \<and> similarity_rate a \<le> 100 \<and>
             fst (compare_ips a u' nt sim ds ips) = Inr out"
  then have f: "nt (''https://'' @ ip) = Inl (ClientConnectorError m)
                \<or> nt (''https://'' @ ip) = Inl (TimeoutError m)"
    and r: "0 \<le> similarity_rate a"
    and o: "fst (compare_ips a u' nt sim ds ips) = Inr out"
    by simp_all
  have open_s: "session (aenter u') = Some OpenSession" by (simp add: aenter_def)
  have zero: "\<And>c'. fst (compare_two_pages (aenter u') nt sim c' ip) = Inr (ip, 0)"
    using compare_two_pages_failed[of nt ip m "aenter u'", OF f open_s] .
  show "(ip, s) \<notin> out"
  proof
    assume "(ip, s) \<in> out"
    with compare_ips_out[OF o, of ip s] obtain c' where
      "fst (compare_two_pages (aenter u') nt sim c' ip) = Inr (ip, s)" "s > similarity_rate a"
      by blast
    with zero[of c'] r show False by simp
  qed
next
  assume "nt (''https://'' @ ip) = Inl e \<and>
          (\<forall>m'. e \<noteq> ClientConnectorError m') \<and> (\<forall>m'. e \<noteq> TimeoutError m') \<and>
          session u = Some OpenSession"
  then show "fst (compare_two_pages u nt sim c ip) = Inl e"
    by (cases e) (simp_all add: compare_two_pages_def get_page_content_def)
qed

theorem fetch_failure_scores_zero_or_is_raised_witness:
  "fst (compare_two_pages entered_utility net_timeout equal_similarity
          ''<html><body>origin</body></html>'' ''203.0.113.7'') = Inr (''203.0.113.7'', 0)
   \<and> fst (compare_ips args_default fresh_utility net_timeout equal_similarity
            [''example.com''] [''203.0.113.7'']) = Inr {}
   \<and> (''203.0.113.7'', 0) \<notin> ({} :: (string \<times> int) set)
   \<and> fst (compare_two_pages entered_utility net_disconnect equal_similarity
            ''<html><body>origin</body></html>'' ''203.0.113.7'')
       = Inl (ServerDisconnectedError ''Server disconnected'')"
proof -
  have h: "net_timeout (''https://'' @ ''203.0.113.7'') = Inl (ClientConnectorError [])
           \<or> net_timeout (''https://'' @ ''203.0.113.7'') = Inl (TimeoutError [])"
    by (simp add: net_timeout_def)
  have s: "session entered_utility = Some OpenSession" by (simp add: entered_utility_def)
  have r: "0 \<le> similarity_rate args_default" "similarity_rate args_default \<le> 100"
    by (simp_all add: args_default_def)
  have e: "fst (compare_ips args_default fresh_utility net_timeout equal_similarity
                  [''example.com''] [''203.0.113.7'']) = Inr {}"
    by (simp add: compare_ips_def aenter_def fresh_utility_def net_timeout_def args_default_def
          compare_two_pages_def get_page_content_def)
  note t = fetch_failure_scores_zero_or_is_raised[of net_timeout "''203.0.113.7''" "[]"
      entered_utility equal_similarity "''<html><body>origin</body></html>''" args_default
      fresh_utility "[''example.com'']" "[''203.0.113.7'']" "{}" 0]
  have 1: "fst (compare_two_pages entered_utility net_timeout equal_similarity
             ''<html><body>origin</body></html>'' ''203.0.113.7'') = Inr (''203.0.113.7'', 0)"
    using t[THEN conjunct1, THEN mp, OF conjI[OF h s]] .
  have 2: "(''203.0.113.7'', 0) \<notin> ({} :: (string \<times> int) set)"
    using t[THEN conjunct2, THEN conjunct1, THEN mp, OF conjI[OF h conjI[OF r(1) conjI[OF r(2) e]]]] .
  have d: "net_disconnect (''https://'' @ ''203.0.113.7'')
             = Inl (ServerDisconnectedError ''Server disconnected'')"
    by (simp add: net_disconnect_def)
  have n1: "\<forall>m'. ServerDisconnectedError ''Server disconnected'' \<noteq> ClientConnectorError m'"
    by simp
  have n2: "\<forall>m'. ServerDisconnectedError ''Server disconnected'' \<noteq> TimeoutError m'"
    by simp
  note t' = fetch_failure_scores_zero_or_is_raised[of net_disconnect "''203.0.113.7''" "[]"
      entered_utility equal_similarity "''<html><body>origin</body></html>''" args_default
      fresh_utility "[''example.com'']" "[''203.0.113.7'']" "{}" 0
      "ServerDisconnectedError ''Server disconnected''"]
  have 3: "fst (compare_two_pages entered_utility net_disconnect equal_similarity
             ''<html><body>origin</body></html>'' ''203.0.113.7'')
           = Inl (ServerDisconnectedError ''Server disconnected'')"
    using t'[THEN conjunct2, THEN conjunct2, THEN mp, OF conjI[OF d conjI[OF n1 conjI[OF n2 s]]]] .
  from 1 e 2 3 show ?thesis by (intro conjI)
qed

text \<open>
  Claim C4. A pair of a candidate and a score is in the set \<open>compare_ips\<close> returns
  exactly when the candidate is one of the filtered IPs, the score is the one the
  comparison gave it against a baseline that was fetched, and the score is strictly
  greater than the threshold; and a command line without the threshold option parses
  to threshold 70.
\<close>

theorem compare_ips_confirms_iff_score_exceeds_rate:
  assumes "fst (compare_ips a u nt sim ds ips) = Inr out"
  shows "((ip, s) \<in> out \<longleftrightarrow>
           (ip \<in> set ips \<and>
            (\<exists>d \<in> set ds. \<exists>c. fst (get_page_content (aenter u) nt d) = Inr (Some c) \<and>
               fst (compare_two_pages (aenter u) nt sim c ip) = Inr (ip, s)) \<and>
            s > similarity_rate a))
        \<and> (\<forall>v a'. parse_arguments v = Inr a' \<and> opt_similarity_rate v = None
              \<longrightarrow> similarity_rate a' = 70)"
proof -
  have "\<forall>v a'. parse_arguments v = Inr a' \<and> opt_similarity_rate v = None
          \<longrightarrow> similarity_rate a' = 70"
    by (auto simp: parse_arguments_def split: if_splits)
  with compare_ips_out[OF assms, of ip s] show ?thesis by blast
qed

theorem compare_ips_confirms_iff_score_exceeds_rate_witness:
  "fst (compare_ips args_default fresh_utility net_same equal_similarity
          [''example.com''] [''203.0.113.7'']) = Inr {(''203.0.113.7'', 100)}
   \<and> similarity_rate args_default < 100
   \<and> parse_arguments argv_domain = Inr args_default
   \<and> similarity_rate args_default = 70"
proof -
  have e: "fst (compare_ips args_default fresh_utility net_same equal_similarity
                  [''example.com''] [''203.0.113.7'']) = Inr {(''203.0.113.7'', 100)}"
    by code_simp
  have p: "parse_arguments argv_domain = Inr args_default"
    by (simp add: parse_arguments_def argv_domain_def args_default_def)
  have n: "opt_similarity_rate argv_domain = None" by (simp add: argv_domain_def)
  from compare_ips_confirms_iff_score_exceeds_rate[OF e, of "''203.0.113.7''" 100] p n
  have "similarity_rate args_default < 100" and "similarity_rate args_default = 70"
    by blast+
  with e p show ?thesis by blast
qed

lemma one_times_100: "float_to_int (times_100 (Finite 1 0)) = Inr 100"
  by code_simp

lemma compare_two_pages_fetched:
  assumes "session u = Some OpenSession" and "nt (''https://'' @ url) = Inr Y"
  shows "map_sum id snd (fst (compare_two_pages u nt sim B url)) =
           (if Y = [] then Inr 0
            else case sim B Y k_locality of
                   Inl e \<Rightarrow> Inl e
                 | Inr x \<Rightarrow> float_to_int (times_100 x))"
  using assms
  by (simp add: compare_two_pages_def get_page_content_def split: sum.splits)

text \<open>
  Claim C7, as stated, fails: with baseline and candidate both serving the empty
  string, and a similarity library that scores equal contents 1.0, the score is 0 and
  not 100, because an empty candidate body is treated like a failed fetch.
\<close>

theorem empty_identical_content_scores_zero:
  "equal_similarity [] [] k_locality = Inr (Finite 1 0)
   \<and> net_blank (''https://'' @ ''203.0.113.7'') = Inr []
   \<and> fst (compare_two_pages entered_utility net_blank equal_similarity [] ''203.0.113.7'')
       = Inr (''203.0.113.7'', 0)"
  by (simp add: equal_similarity_def net_blank_def compare_two_pages_def get_page_content_def
        entered_utility_def)

text \<open>
  Claim C7, amended. The outcome of a comparison whose fetch returns a content is
  the same for any two candidates, networks and utility objects that give the same
  content, and for any two similarity libraries that agree on the baseline and that
  content at locality 0.3: the score is a function of the baseline content, the
  candidate content and the locality parameter. For every content that is not empty
  and that the library scores 1.0 against itself, the baseline against a candidate
  serving exactly it scores 100. A candidate serving the empty string scores 0
  whatever the baseline and the library.
\<close>

theorem compare_two_pages_score_of_contents:
  assumes "session u = Some OpenSession" and "session u' = Some OpenSession"
  shows "(nt (''https://'' @ url) = Inr Y \<and> nt' (''https://'' @ url') = Inr Y \<and>
          sim B Y k_locality = sim' B Y k_locality
            \<longrightarrow> map_sum id snd (fst (compare_two_pages u nt sim B url))
                  = map_sum id snd (fst (compare_two_pages u' nt' sim' B url')))
         \<and> (nt (''https://'' @ url) = Inr X \<and> X \<noteq> [] \<and>
            sim X X k_locality = Inr (Finite 1 0)
              \<longrightarrow> fst (compare_two_pages u nt sim X url) = Inr (url, 100))
         \<and> (nt (''https://'' @ url) = Inr []
              \<longrightarrow> fst (compare_two_pages u nt sim B url) = Inr (url, 0))"
proof (intro conjI impI)
  assume "nt (''https://'' @ url) = Inr Y \<and> nt' (''https://'' @ url') = Inr Y \<and>
          sim B Y k_locality = sim' B Y k_locality"
  then show "map_sum id snd (fst (compare_two_pages u nt sim B url))
              = map_sum id snd (fst (compare_two_pages u' nt' sim' B url'))"
    using compare_two_pages_fetched[OF assms(1), of nt url Y sim B]
      compare_two_pages_fetched[OF assms(2), of nt' url' Y sim' B]
    by simp
next
  assume "nt (''https://'' @ url) = Inr X \<and> X \<noteq> [] \<and> sim X X k_locality = Inr (Finite 1 0)"
  then show "fst (compare_two_pages u nt sim X url) = Inr (url, 100)"
    using assms(1)
    by (simp add: compare_two_pages_def get_page_content_def one_times_100)
next
  assume "nt (''https://'' @ url) = Inr []"
  then show "fst (compare_two_pages u nt sim B url) = Inr (url, 0)"
    using assms(1) by (simp add: compare_two_pages_def get_page_content_def)
qed

theorem compare_two_pages_score_of_contents_witness:
  "map_sum id snd (fst (compare_two_pages entered_utility net_same equal_similarity
                          ''<html><body>origin</body></html>'' ''203.0.113.7''))
     = map_sum id snd (fst (compare_two_pages (aenter fresh_utility) net_same equal_similarity
                              ''<html><body>origin</body></html>'' ''example.com''))
   \<and> fst (compare_two_pages entered_utility net_same equal_similarity
            ''<html><body>origin</body></html>'' ''203.0.113.7'') = Inr (''203.0.113.7'', 100)
   \<and> fst (compare_two_pages entered_utility net_blank equal_similarity
            ''<html><body>origin</body></html>'' ''203.0.113.7'') = Inr (''203.0.113.7'', 0)"
proof -
  let ?page = "''<html><body>origin</body></html>''"
  have a: "session entered_utility = Some OpenSession" by (simp add: entered_utility_def)
  have a': "session (aenter fresh_utility) = Some OpenSession" by (simp add: aenter_def)
  have b: "net_same (''https://'' @ ''203.0.113.7'') = Inr ?page"
    by (simp add: net_same_def)
  have b': "net_same (''https://'' @ ''example.com'') = Inr ?page"
    by (simp add: net_same_def)
  have c: "?page \<noteq> []" by simp
  have d: "equal_similarity ?page ?page k_locality = Inr (Finite 1 0)"
    by (simp add: equal_similarity_def)
  have k: "equal_similarity ?page ?page k_locality = equal_similarity ?page ?page k_locality"
    by simp
  have z: "net_blank (''https://'' @ ''203.0.113.7'') = Inr []" by (simp add: net_blank_def)
  note t = compare_two_pages_score_of_contents[OF a a', of net_same "''203.0.113.7''" ?page
      net_same "''example.com''" equal_similarity ?page equal_similarity ?page]
  note t' = compare_two_pages_score_of_contents[OF a a', of net_blank "''203.0.113.7''" ?page
      net_same "''example.com''" equal_similarity ?page equal_similarity ?page]
  have 1: "map_sum id snd (fst (compare_two_pages entered_utility net_same equal_similarity
                          ?page ''203.0.113.7''))
     = map_sum id snd (fst (compare_two_pages (aenter fresh_utility) net_same equal_similarity
                              ?page ''example.com''))"
    using t[THEN conjunct1, THEN mp, OF conjI[OF b conjI[OF b' k]]] .
  have 2: "fst (compare_two_pages entered_utility net_same equal_similarity
            ?page ''203.0.113.7'') = Inr (''203.0.113.7'', 100)"
    using t[THEN conjunct2, THEN conjunct1, THEN mp, OF conjI[OF b conjI[OF c d]]] .
  have 3: "fst (compare_two_pages entered_utility net_blank equal_similarity
            ?page ''203.0.113.7'') = Inr (''203.0.113.7'', 0)"
    using t'[THEN conjunct2, THEN conjunct2, THEN mp, OF z] .
  from 1 2 3 show ?thesis by (intro conjI)
qed

text \<open>The multiplication is rounded as the interpreter rounds it: the double nearest
  to 0.2 from below scores 20, and the double that 0.71 denotes scores 71.\<close>

lemma rounded_products:
  "float_to_int (times_100 (Finite 7205759403792793 (- 55))) = Inr 20
   \<and> float_to_int (times_100 (Finite 799388933858263 (- 50))) = Inr 71"
  by code_simp

section \<open>The orchestrator\<close>

text \<open>
  Claim C9. In every run that is not discovery-only and in which the first two
  stages return and the filter returns the empty set, \<open>run\<close> returns after logging
  that it found no non-WAF IP: the banner and the four log lines are all it does, so
  there is no comparison and no content fetch.
\<close>

theorem run_halts_when_filter_yields_no_ips:
  assumes "subdomain_gathering w (get_input_domains a) = Inr subdomains"
    and "\<not> domains_only a"
    and "ip_gathering w subdomains = Inr ips"
    and "fst (filter_ips w ips) = Inr {}"
  shows "run a u w =
           (Inr (),
            [PrintBanner, LogInfo ''1. Gathering subdomains'', LogInfo ''2. Gathering IPs'',
             LogInfo ''3. Filtering out WAF IPs'',
             LogInfo (Fore_GREEN @ ''Found 0 possible non-WAF IPs'' @ Fore_RESET)])
         \<and> \<not> list_ex is_fetch (snd (run a u w))"
proof -
  from assms(4) have f: "filter_ips w ips = (Inr {}, [LogInfo ''3. Filtering out WAF IPs''])"
    by (simp add: filter_ips_def)
  have r: "run a u w =
           (Inr (),
            [PrintBanner, LogInfo ''1. Gathering subdomains'', LogInfo ''2. Gathering IPs'',
             LogInfo ''3. Filtering out WAF IPs'',
             LogInfo (Fore_GREEN @ ''Found 0 possible non-WAF IPs'' @ Fore_RESET)])"
    using assms(1-3) f by (simp add: run_def find_subdomains_def find_ips_def)
  then show ?thesis by (simp add: is_fetch_def)
qed

theorem run_halts_when_filter_yields_no_ips_witness:
  "run args_default fresh_utility world_all_waf =
     (Inr (),
      [PrintBanner, LogInfo ''1. Gathering subdomains'', LogInfo ''2. Gathering IPs'',
       LogInfo ''3. Filtering out WAF IPs'',
       LogInfo (Fore_GREEN @ ''Found 0 possible non-WAF IPs'' @ Fore_RESET)])
   \<and> \<not> list_ex is_fetch (snd (run args_default fresh_utility world_all_waf))"
proof -
  have 1: "subdomain_gathering world_all_waf (get_input_domains args_default)
              = Inr {''www.example.com'', ''example.com''}"
    by (simp add: world_all_waf_def get_input_domains_def args_default_def found_subdomains_def)
  have 2: "\<not> domains_only args_default" by (simp add: args_default_def)
  have 3: "ip_gathering world_all_waf {''www.example.com'', ''example.com''} = Inr {''1.2.3.5''}"
    by (simp add: world_all_waf_def resolved_in_waf_def)
  have 4: "fst (filter_ips world_all_waf {''1.2.3.5''}) = Inr {}"
    by code_simp
  from run_halts_when_filter_yields_no_ips[OF 1 2 3 4] show ?thesis .
qed

section \<open>The source aggregator\<close>

lemma try_map_Inr_mem:
  "try_map f xs = Inr ys \<Longrightarrow> x \<in> set xs \<Longrightarrow> \<exists>y. f x = Inr y \<and> y \<in> set ys"
  by (induction xs arbitrary: ys) (auto split: sum.splits)

lemma try_map_Inr_set:
  "try_map f xs = Inr ys \<Longrightarrow> y \<in> set ys \<Longrightarrow> \<exists>x \<in> set xs. f x = Inr y"
  by (induction xs arbitrary: ys) (auto split: sum.splits)

lemma fst_dnsdumpster: "fst (dnsdumpster_scraping src domain d) = dnsdumpster_answer src domain"
  by (simp add: dnsdumpster_answer_def dnsdumpster_scraping_def Let_def
           split: sum.splits list.splits)

lemma fst_certspotter: "fst (certspotter_scraping src domain d) = certspotter_answer src domain"
  by (simp add: certspotter_answer_def certspotter_scraping_def split: sum.splits)

lemma fst_hackertarget: "fst (hackertarget_scraping src domain d) = hackertarget_answer src domain"
  by (simp add: hackertarget_answer_def hackertarget_scraping_def Let_def split: sum.splits)

lemma fst_crtsh: "fst (crtsh_scraping src domain d) = crtsh_answer src domain"
  by (simp add: crtsh_answer_def crtsh_scraping_def split: sum.splits)

lemma fst_gather_tasks:
  "fst (gather_tasks src domain d) =
     (case dnsdumpster_answer src domain of Inl e \<Rightarrow> Inl e | Inr r1 \<Rightarrow>
     (case certspotter_answer src domain of Inl e \<Rightarrow> Inl e | Inr r2 \<Rightarrow>
     (case hackertarget_answer src domain of Inl e \<Rightarrow> Inl e | Inr r3 \<Rightarrow>
     (case crtsh_answer src domain of Inl e \<Rightarrow> Inl e | Inr r4 \<Rightarrow>
     (case get_top_domains src [domain] of Inl e \<Rightarrow> Inl e | Inr r5 \<Rightarrow>
        Inr [set r1, r2, r3, r4, set r5])))))"
proof -
  obtain a1 d1 where 1: "dnsdumpster_scraping src domain d = (a1, d1)"
    by (cases "dnsdumpster_scraping src domain d")
  obtain a2 d2 where 2: "certspotter_scraping src domain d1 = (a2, d2)"
    by (cases "certspotter_scraping src domain d1")
  obtain a3 d3 where 3: "hackertarget_scraping src domain d2 = (a3, d3)"
    by (cases "hackertarget_scraping src domain d2")
  obtain a4 d4 where 4: "crtsh_scraping src domain d3 = (a4, d4)"
    by (cases "crtsh_scraping src domain d3")
  have e1: "dnsdumpster_answer src domain = a1" using fst_dnsdumpster[of src domain d] 1 by simp
  have e2: "certspotter_answer src domain = a2" using fst_certspotter[of src domain d1] 2 by simp
  have e3: "hackertarget_answer src domain = a3" using fst_hackertarget[of src domain d2] 3 by simp
  have e4: "crtsh_answer src domain = a4" using fst_crtsh[of src domain d3] 4 by simp
  show ?thesis
    unfolding gather_tasks_def e1 e2 e3 e4 1
    by (cases a1; cases a2; cases a3; cases a4; cases "get_top_domains src [domain]";
        simp add: 2 3 4)
qed

lemma fst_gather_tasks_indep: "fst (gather_tasks src domain d) = tasks_answer src domain"
  unfolding tasks_answer_def fst_gather_tasks ..

lemma tasks_answer_Inr_iff:
  "tasks_answer src domain = Inr results \<longleftrightarrow>
     (\<exists>r1 r2 r3 r4 r5. dnsdumpster_answer src domain = Inr r1 \<and>
        certspotter_answer src domain = Inr r2 \<and> hackertarget_answer src domain = Inr r3 \<and>
        crtsh_answer src domain = Inr r4 \<and> get_top_domains src [domain] = Inr r5 \<and>
        results = [set r1, r2, r3, r4, set r5])"
  unfolding tasks_answer_def fst_gather_tasks
  by (cases "dnsdumpster_answer src domain"; cases "certspotter_answer src domain";
      cases "hackertarget_answer src domain"; cases "crtsh_answer src domain";
      cases "get_top_domains src [domain]"; simp; blast?)

lemma tasks_answer_Inl_iff:
  "(\<exists>e. tasks_answer src domain = Inl e) \<longleftrightarrow>
     ((\<exists>e. dnsdumpster_answer src domain = Inl e) \<or> (\<exists>e. certspotter_answer src domain = Inl e) \<or>
      (\<exists>e. hackertarget_answer src domain = Inl e) \<or> (\<exists>e. crtsh_answer src domain = Inl e) \<or>
      (\<exists>e. get_top_domains src [domain] = Inl e))"
  unfolding tasks_answer_def fst_gather_tasks
  by (cases "dnsdumpster_answer src domain"; cases "certspotter_answer src domain";
      cases "hackertarget_answer src domain"; cases "crtsh_answer src domain";
      cases "get_top_domains src [domain]"; simp)

lemma gather_loop_Inr:
  "gather_loop src acc ds d = (Inr out, d') \<Longrightarrow>
     acc \<subseteq> out \<and> set ds \<subseteq> out \<and>
     (\<forall>domain \<in> set ds. \<exists>results. tasks_answer src domain = Inr results \<and>
                                      \<Union> (set results) \<subseteq> out)"
proof (induction ds arbitrary: acc d)
  case Nil
  then show ?case by simp
next
  case (Cons domain ds)
  obtain a d1 where t: "gather_tasks src domain d = (a, d1)"
    by (cases "gather_tasks src domain d")
  with Cons.prems obtain results where a: "a = Inr results" by (cases a) auto
  from t a have ans: "tasks_answer src domain = Inr results"
    using fst_gather_tasks_indep[of src domain d] by simp
  let ?sub = "insert domain (\<Union> (set results))"
  from Cons.prems t a have
    "gather_loop src (acc \<union> ?sub) ds (write_subdomain_results src domain ?sub d1) = (Inr out, d')"
    by (simp add: Let_def)
  from Cons.IH[OF this] ans show ?case by auto
qed

lemma gather_loop_Inl:
  "domain \<in> set ds \<Longrightarrow> tasks_answer src domain = Inl e \<Longrightarrow>
     \<exists>e'. fst (gather_loop src acc ds d) = Inl e'"
proof (induction ds arbitrary: acc d)
  case Nil
  then show ?case by simp
next
  case (Cons x ds)
  obtain a d1 where t: "gather_tasks src x d = (a, d1)" by (cases "gather_tasks src x d")
  show ?case
  proof (cases a)
    case (Inl e0)
    with t show ?thesis by simp
  next
    case (Inr results)
    with t have "tasks_answer src x = Inr results"
      using fst_gather_tasks_indep[of src x d] by simp
    with Cons.prems have "domain \<in> set ds" by auto
    from Cons.IH[OF this Cons.prems(2)] t Inr show ?thesis by (simp add: Let_def)
  qed
qed

lemma gather_loop_total:
  "(\<forall>domain \<in> set ds. \<exists>results. tasks_answer src domain = Inr results) \<Longrightarrow>
     \<exists>out. fst (gather_loop src acc ds d) = Inr out"
proof (induction ds arbitrary: acc d)
  case Nil
  then show ?case by simp
next
  case (Cons x ds)
  then obtain results where "tasks_answer src x = Inr results" by auto
  then have "fst (gather_tasks src x d) = Inr results" by (simp add: fst_gather_tasks_indep)
  then obtain d1 where t: "gather_tasks src x d = (Inr results, d1)"
    by (cases "gather_tasks src x d") auto
  from Cons.prems have "\<forall>domain \<in> set ds. \<exists>results. tasks_answer src domain = Inr results"
    by simp
  from Cons.IH[OF this] t show ?case by (simp add: Let_def)
qed

lemma fst_gather_subdomains:
  "fst (gather_subdomains src ds d) = fst (gather_loop src {} ds d)"
  by (simp add: gather_subdomains_def split: prod.splits sum.splits)

text \<open>
  Claim C2, as stated, fails: with certspotter failing to connect while dnsdumpster
  answers with a hostname, \<open>gather_subdomains\<close> raises the connection error; there
  is no aggregate, so the other sources' hostnames are not in one.
\<close>

theorem gather_subdomains_aborts_on_certspotter_failure:
  "fst (dnsdumpster_scraping sources_cs_down ''example.com'' blank_disk) = Inr [''a.example.com'']
   \<and> fst (gather_subdomains sources_cs_down [''example.com''] blank_disk)
        = Inl (ClientConnectorError ''Cannot connect to host api.certspotter.com'')"
  by code_simp

text \<open>
  Claim C2, amended. For every input domain, an exception raised by any one of the
  five tasks of the fan-out propagates: \<open>gather_subdomains\<close> raises and returns no
  aggregate. When it does return, every task returned for that domain, and the
  aggregate includes the hostnames of each of them.
\<close>

theorem gather_subdomains_source_failure_propagates:
  assumes "domain \<in> set domains"
  shows "(((\<exists>e. fst (dnsdumpster_scraping src domain d1) = Inl e) \<or>
           (\<exists>e. fst (certspotter_scraping src domain d2) = Inl e) \<or>
           (\<exists>e. fst (hackertarget_scraping src domain d3) = Inl e) \<or>
           (\<exists>e. fst (crtsh_scraping src domain d4) = Inl e) \<or>
           (\<exists>e. get_top_domains src [domain] = Inl e))
          \<longrightarrow> (\<exists>e. fst (gather_subdomains src domains d) = Inl e))
       \<and> (\<forall>out. fst (gather_subdomains src domains d) = Inr out \<longrightarrow>
            (\<exists>r1 r2 r3 r4 r5.
               fst (dnsdumpster_scraping src domain d1) = Inr r1 \<and>
               fst (certspotter_scraping src domain d2) = Inr r2 \<and>
               fst (hackertarget_scraping src domain d3) = Inr r3 \<and>
               fst (crtsh_scraping src domain d4) = Inr r4 \<and>
               get_top_domains src [domain] = Inr r5 \<and>
               set r1 \<union> r2 \<union> r3 \<union> r4 \<union> set r5 \<subseteq> out))"
proof (intro conjI impI allI)
  assume "(\<exists>e. fst (dnsdumpster_scraping src domain d1) = Inl e) \<or>
           (\<exists>e. fst (certspotter_scraping src domain d2) = Inl e) \<or>
           (\<exists>e. fst (hackertarget_scraping src domain d3) = Inl e) \<or>
           (\<exists>e. fst (crtsh_scraping src domain d4) = Inl e) \<or>
           (\<exists>e. get_top_domains src [domain] = Inl e)"
  then have "\<exists>e. tasks_answer src domain = Inl e"
    unfolding tasks_answer_Inl_iff fst_dnsdumpster fst_certspotter fst_hackertarget fst_crtsh .
  then obtain e where "tasks_answer src domain = Inl e" ..
  from gather_loop_Inl[OF assms this]
  show "\<exists>e. fst (gather_subdomains src domains d) = Inl e"
    by (simp add: fst_gather_subdomains)
next
  fix out
  assume "fst (gather_subdomains src domains d) = Inr out"
  then obtain d' where "gather_loop src {} domains d = (Inr out, d')"
    by (cases "gather_loop src {} domains d") (simp add: fst_gather_subdomains)
  from gather_loop_Inr[OF this] assms obtain results where
    r: "tasks_answer src domain = Inr results" and s: "\<Union> (set results) \<subseteq> out"
    by blast
  from r obtain r1 r2 r3 r4 r5 where
    "dnsdumpster_answer src domain = Inr r1" "certspotter_answer src domain = Inr r2"
    "hackertarget_answer src domain = Inr r3" "crtsh_answer src domain = Inr r4"
    "get_top_domains src [domain] = Inr r5" "results = [set r1, r2, r3, r4, set r5]"
    unfolding tasks_answer_Inr_iff by blast
  with s show "\<exists>r1 r2 r3 r4 r5.
               fst (dnsdumpster_scraping src domain d1) = Inr r1 \<and>
               fst (certspotter_scraping src domain d2) = Inr r2 \<and>
               fst (hackertarget_scraping src domain d3) = Inr r3 \<and>
               fst (crtsh_scraping src domain d4) = Inr r4 \<and>
               get_top_domains src [domain] = Inr r5 \<and>
               set r1 \<union> r2 \<union> r3 \<union> r4 \<union> set r5 \<subseteq> out"
    unfolding fst_dnsdumpster fst_certspotter fst_hackertarget fst_crtsh
    by (intro exI[of _ r1] exI[of _ r2] exI[of _ r3] exI[of _ r4] exI[of _ r5]) auto
qed

theorem gather_subdomains_source_failure_propagates_witness:
  "''example.com'' \<in> set [''example.com'']
   \<and> fst (hackertarget_scraping sources_ht_down ''example.com'' blank_disk) = Inl (TimeoutError [])
   \<and> (\<exists>e. fst (gather_subdomains sources_ht_down [''example.com''] blank_disk) = Inl e)
   \<and> fst (crtsh_scraping sources_crt_wildcard ''example.com'' blank_disk) = Inr {}
   \<and> (\<exists>r1 r2 r3 r4 r5.
         fst (dnsdumpster_scraping sources_crt_wildcard ''example.com'' blank_disk) = Inr r1 \<and>
         fst (certspotter_scraping sources_crt_wildcard ''example.com'' blank_disk) = Inr r2 \<and>
         fst (hackertarget_scraping sources_crt_wildcard ''example.com'' blank_disk) = Inr r3 \<and>
         fst (crtsh_scraping sources_crt_wildcard ''example.com'' blank_disk) = Inr r4 \<and>
         get_top_domains sources_crt_wildcard [''example.com''] = Inr r5 \<and>
         set r1 \<union> r2 \<union> r3 \<union> r4 \<union> set r5
           \<subseteq> {''a.example.com'', ''b.example.com'', ''c.example.com'', ''d.example.com'',
                ''example.com''})"
proof -
  have m: "''example.com'' \<in> set [''example.com'']" by simp
  have h: "fst (hackertarget_scraping sources_ht_down ''example.com'' blank_disk)
             = Inl (TimeoutError [])"
    by code_simp
  then have "\<exists>e. fst (hackertarget_scraping sources_ht_down ''example.com'' blank_disk) = Inl e" ..
  then have dj:
    "(\<exists>e. fst (dnsdumpster_scraping sources_ht_down ''example.com'' blank_disk) = Inl e) \<or>
     (\<exists>e. fst (certspotter_scraping sources_ht_down ''example.com'' blank_disk) = Inl e) \<or>
     (\<exists>e. fst (hackertarget_scraping sources_ht_down ''example.com'' blank_disk) = Inl e) \<or>
     (\<exists>e. fst (crtsh_scraping sources_ht_down ''example.com'' blank_disk) = Inl e) \<or>
     (\<exists>e. get_top_domains sources_ht_down [''example.com''] = Inl e)"
    by (intro disjI2 disjI1)
  note down = gather_subdomains_source_failure_propagates[OF m, of sources_ht_down
      blank_disk blank_disk blank_disk blank_disk blank_disk]
  have f: "\<exists>e. fst (gather_subdomains sources_ht_down [''example.com''] blank_disk) = Inl e"
    using down[THEN conjunct1, THEN mp, OF dj] .
  have c: "fst (crtsh_scraping sources_crt_wildcard ''example.com'' blank_disk) = Inr {}"
    by code_simp
  have u: "fst (gather_subdomains sources_crt_wildcard [''example.com''] blank_disk)
     = Inr {''a.example.com'', ''b.example.com'', ''c.example.com'', ''d.example.com'',
            ''example.com''}"
    by code_simp
  note up = gather_subdomains_source_failure_propagates[OF m, of sources_crt_wildcard
      blank_disk blank_disk blank_disk blank_disk blank_disk]
  from up[THEN conjunct2, THEN spec, THEN mp, OF u] m h f c show ?thesis
    by (intro conjI)
qed

text \<open>
  Claim C6, as stated, fails: when the request to hackertarget times out, the
  exception leaves \<open>gather_subdomains\<close>, which returns no set at all, so none that
  contains the input domain.
\<close>

theorem gather_subdomains_returns_nothing_on_hackertarget_timeout:
  "fst (gather_subdomains sources_ht_down [''example.com''] blank_disk) = Inl (TimeoutError [])"
  by code_simp

text \<open>
  Claim C6, amended. Whenever \<open>gather_subdomains\<close> returns a set, the set contains
  every input domain; and it does return one whenever every task of the fan-out
  returns for every input domain, whether with hostnames or with none.
\<close>

theorem gather_subdomains_contains_input_domains:
  "(fst (gather_subdomains src domains d) = Inr out \<longrightarrow> set domains \<subseteq> out)
   \<and> ((\<forall>domain \<in> set domains.
          (\<exists>r. fst (dnsdumpster_scraping src domain d0) = Inr r) \<and>
          (\<exists>r. fst (certspotter_scraping src domain d0) = Inr r) \<and>
          (\<exists>r. fst (hackertarget_scraping src domain d0) = Inr r) \<and>
          (\<exists>r. fst (crtsh_scraping src domain d0) = Inr r) \<and>
          (\<exists>r. get_top_domains src [domain] = Inr r))
        \<longrightarrow> (\<exists>all_domains. fst (gather_subdomains src domains d) = Inr all_domains
                \<and> set domains \<subseteq> all_domains))"
proof -
  have a: "set domains \<subseteq> out" if "fst (gather_subdomains src domains d) = Inr out" for out
  proof -
    from that obtain d' where "gather_loop src {} domains d = (Inr out, d')"
      by (cases "gather_loop src {} domains d") (simp add: fst_gather_subdomains)
    from gather_loop_Inr[OF this] show ?thesis by blast
  qed
  have b: "\<exists>all_domains. fst (gather_subdomains src domains d) = Inr all_domains
                \<and> set domains \<subseteq> all_domains"
    if h: "\<forall>domain \<in> set domains.
          (\<exists>r. fst (dnsdumpster_scraping src domain d0) = Inr r) \<and>
          (\<exists>r. fst (certspotter_scraping src domain d0) = Inr r) \<and>
          (\<exists>r. fst (hackertarget_scraping src domain d0) = Inr r) \<and>
          (\<exists>r. fst (crtsh_scraping src domain d0) = Inr r) \<and>
          (\<exists>r. get_top_domains src [domain] = Inr r)"
  proof -
    from h have "\<forall>domain \<in> set domains. \<exists>results. tasks_answer src domain = Inr results"
      unfolding tasks_answer_Inr_iff fst_dnsdumpster fst_certspotter fst_hackertarget fst_crtsh
      by blast
    from gather_loop_total[OF this, of "{}" d] obtain all_domains where
      "fst (gather_subdomains src domains d) = Inr all_domains"
      by (auto simp: fst_gather_subdomains)
    with a show ?thesis by blast
  qed
  from a b show ?thesis by blast
qed

theorem gather_subdomains_contains_input_domains_witness:
  "fst (gather_subdomains sources_ht_limited [''example.com''] blank_disk)
     = Inr {''a.example.com'', ''b.example.com'', ''example.com'', ''www.example.com''}
   \<and> set [''example.com'']
       \<subseteq> {''a.example.com'', ''b.example.com'', ''example.com'', ''www.example.com''}
   \<and> fst (hackertarget_scraping sources_ht_limited ''example.com'' blank_disk) = Inr {}
   \<and> (\<exists>all_domains.
         fst (gather_subdomains sources_ht_limited [''example.com''] blank_disk) = Inr all_domains
         \<and> set [''example.com''] \<subseteq> all_domains)"
proof -
  have e: "fst (gather_subdomains sources_ht_limited [''example.com''] blank_disk)
     = Inr {''a.example.com'', ''b.example.com'', ''example.com'', ''www.example.com''}"
    by code_simp
  note t = gather_subdomains_contains_input_domains[of sources_ht_limited "[''example.com'']"
      blank_disk "{''a.example.com'', ''b.example.com'', ''example.com'', ''www.example.com''}"
      blank_disk]
  have s: "set [''example.com'']
       \<subseteq> {''a.example.com'', ''b.example.com'', ''example.com'', ''www.example.com''}"
    using t[THEN conjunct1, THEN mp, OF e] .
  have 1: "fst (dnsdumpster_scraping sources_ht_limited ''example.com'' blank_disk)
             = Inr [''a.example.com'']"
    by code_simp
  have 2: "fst (certspotter_scraping sources_ht_limited ''example.com'' blank_disk)
             = Inr {''b.example.com'', ''example.com''}"
    by code_simp
  have 3: "fst (hackertarget_scraping sources_ht_limited ''example.com'' blank_disk) = Inr {}"
    by code_simp
  have 4: "fst (crtsh_scraping sources_ht_limited ''example.com'' blank_disk)
             = Inr {''www.example.com''}"
    by code_simp
  have 5: "get_top_domains sources_ht_limited [''example.com''] = Inr [''example.com'']"
    by (simp add: sources_ht_limited_def sources_up_def base_domains_def)
  have all: "\<forall>domain \<in> set [''example.com''].
          (\<exists>r. fst (dnsdumpster_scraping sources_ht_limited domain blank_disk) = Inr r) \<and>
          (\<exists>r. fst (certspotter_scraping sources_ht_limited domain blank_disk) = Inr r) \<and>
          (\<exists>r. fst (hackertarget_scraping sources_ht_limited domain blank_disk) = Inr r) \<and>
          (\<exists>r. fst (crtsh_scraping sources_ht_limited domain blank_disk) = Inr r) \<and>
          (\<exists>r. get_top_domains sources_ht_limited [domain] = Inr r)"
    using 1 2 3 4 5 by simp
  from t[THEN conjunct2, THEN mp, OF all] e s 3 show ?thesis
    by (intro conjI)
qed

lemma lstrip_wildcard:
  assumes "bare = [] \<or> (hd bare \<noteq> CHR ''*'' \<and> hd bare \<noteq> CHR ''.'')"
  shows "lstrip_chars ''*.'' (''*.'' @ bare) = bare"
  using assms by (cases bare) (auto simp: lstrip_chars_def)

lemma certspotter_scraping_domains:
  "certspotter_get src domain = Inr response_json \<Longrightarrow>
   fst (certspotter_scraping src domain d) = Inr S \<Longrightarrow> certspotter_domains response_json = Inr S"
  by (auto simp: certspotter_scraping_def split: sum.splits)

lemma crtsh_scraping_domains:
  "crtsh_get src domain = Inr response_json \<Longrightarrow>
   fst (crtsh_scraping src domain d) = Inr S \<Longrightarrow> crtsh_domains response_json = Inr S"
  by (auto simp: crtsh_scraping_def split: sum.splits)

lemma certspotter_domains_mem:
  assumes "certspotter_domains response_json = Inr S"
    and "py_iter response_json = Inr items" and "item \<in> set items"
    and "getitem item ''dns_names'' = Inr names" and "py_iter names = Inr dns_names"
    and "JString s \<in> set dns_names"
  shows "lstrip_chars ''*.'' s \<in> S"
proof -
  from assms(1,2) obtain nss where t: "try_map certspotter_names items = Inr nss"
    and S: "S = set (concat nss)"
    by (auto simp: certspotter_domains_def split: sum.splits)
  from try_map_Inr_mem[OF t assms(3)] obtain ns where
    n: "certspotter_names item = Inr ns" and m: "ns \<in> set nss" by blast
  from n assms(4,5) have t2:
    "try_map (\<lambda>dns_name. case dns_name of JString s \<Rightarrow> Inr (lstrip_chars ''*.'' s)
                                    | _ \<Rightarrow> Inl AttributeError) dns_names = Inr ns"
    by (simp add: certspotter_names_def)
  from try_map_Inr_mem[OF t2 assms(6)] have "lstrip_chars ''*.'' s \<in> set ns" by simp
  with m S show ?thesis by auto
qed

lemma crtsh_domains_mem:
  assumes "crtsh_domains response_json = Inr S"
    and "py_iter response_json = Inr items"
  shows "name \<in> S \<longleftrightarrow>
           (\<exists>item \<in> set items. \<exists>s. getitem item ''name_value'' = Inr (JString s) \<and>
              name \<in> set (split [CHR 0x0A] s) \<and> \<not> startswith ''*.'' name)"
proof -
  from assms obtain nss where t: "try_map crtsh_names items = Inr nss"
    and S: "S = set (concat nss)"
    by (auto simp: crtsh_domains_def split: sum.splits)
  have names: "\<exists>s. getitem item ''name_value'' = Inr (JString s) \<and>
                 ns = filter (\<lambda>name. \<not> startswith ''*.'' name) (split [CHR 0x0A] s)"
    if "crtsh_names item = Inr ns" for item ns
    using that by (auto simp: crtsh_names_def split: sum.splits json.splits)
  show ?thesis
  proof
    assume "name \<in> S"
    with S obtain ns where "ns \<in> set nss" "name \<in> set ns" by auto
    with try_map_Inr_set[OF t] obtain item where "item \<in> set items" "crtsh_names item = Inr ns"
      by blast
    with names \<open>name \<in> set ns\<close>
    show "\<exists>item \<in> set items. \<exists>s. getitem item ''name_value'' = Inr (JString s) \<and>
              name \<in> set (split [CHR 0x0A] s) \<and> \<not> startswith ''*.'' name"
      by fastforce
  next
    assume "\<exists>item \<in> set items. \<exists>s. getitem item ''name_value'' = Inr (JString s) \<and>
              name \<in> set (split [CHR 0x0A] s) \<and> \<not> startswith ''*.'' name"
    then obtain item s where i: "item \<in> set items"
      and g: "getitem item ''name_value'' = Inr (JString s)"
      and n: "name \<in> set (split [CHR 0x0A] s)" "\<not> startswith ''*.'' name" by blast
    from try_map_Inr_mem[OF t i] obtain ns where c: "crtsh_names item = Inr ns"
      and m: "ns \<in> set nss"
      by blast
    from c g have "ns = filter (\<lambda>name. \<not> startswith ''*.'' name) (split [CHR 0x0A] s)"
      by (simp add: crtsh_names_def)
    with n have "name \<in> set ns" by simp
    with m S show "name \<in> S" by auto
  qed
qed

text \<open>
  Claim C5, as stated, fails: when crt.sh answers with the single name
  \<^verbatim>\<open>*.example.com\<close>, the derived hostname set is empty. The wildcard name is
  discarded, and the bare name is not kept.
\<close>

theorem crtsh_discards_wildcard_name:
  "crtsh_get sources_crt_wildcard ''example.com''
     = Inr (JArray [JObject [(''name_value'', JString ''*.example.com'')]])
   \<and> fst (crtsh_scraping sources_crt_wildcard ''example.com'' blank_disk) = Inr {}"
  by code_simp

text \<open>
  Claim C5, amended. In a certspotter answer, a name made of \<^verbatim>\<open>*.\<close> and a bare name
  that does not itself start with \<^verbatim>\<open>*\<close> or \<^verbatim>\<open>.\<close> puts the bare name in the derived
  set. In a crt.sh answer, the derived set holds exactly the lines of the
  \<^verbatim>\<open>name_value\<close> fields that do not start with \<^verbatim>\<open>*.\<close>, unchanged: a wildcard name
  is discarded there.
\<close>

theorem wildcard_stripped_by_certspotter_discarded_by_crtsh:
  "(certspotter_get src domain = Inr response_json \<and>
    fst (certspotter_scraping src domain d) = Inr S \<and>
    py_iter response_json = Inr items \<and> item \<in> set items \<and>
    getitem item ''dns_names'' = Inr names \<and> py_iter names = Inr dns_names \<and>
    JString (''*.'' @ bare) \<in> set dns_names \<and>
    (bare = [] \<or> (hd bare \<noteq> CHR ''*'' \<and> hd bare \<noteq> CHR ''.''))
      \<longrightarrow> bare \<in> S)
   \<and> (crtsh_get src domain = Inr response_json' \<and>
      fst (crtsh_scraping src domain d) = Inr S' \<and>
      py_iter response_json' = Inr items'
      \<longrightarrow> (name \<in> S' \<longleftrightarrow>
           (\<exists>item \<in> set items'. \<exists>s. getitem item ''name_value'' = Inr (JString s) \<and>
              name \<in> set (split [CHR 0x0A] s) \<and> \<not> startswith ''*.'' name)))"
proof (intro conjI impI)
  assume a: "certspotter_get src domain = Inr response_json \<and>
    fst (certspotter_scraping src domain d) = Inr S \<and>
    py_iter response_json = Inr items \<and> item \<in> set items \<and>
    getitem item ''dns_names'' = Inr names \<and> py_iter names = Inr dns_names \<and>
    JString (''*.'' @ bare) \<in> set dns_names \<and>
    (bare = [] \<or> (hd bare \<noteq> CHR ''*'' \<and> hd bare \<noteq> CHR ''.''))"
  then have "certspotter_domains response_json = Inr S"
    using certspotter_scraping_domains by blast
  with a have "lstrip_chars ''*.'' (''*.'' @ bare) \<in> S"
    using certspotter_domains_mem[of response_json S items item names dns_names "''*.'' @ bare"]
    by blast
  with a show "bare \<in> S" using lstrip_wildcard[of bare] by simp
next
  assume a: "crtsh_get src domain = Inr response_json' \<and>
      fst (crtsh_scraping src domain d) = Inr S' \<and>
      py_iter response_json' = Inr items'"
  then have "crtsh_domains response_json' = Inr S'"
    using crtsh_scraping_domains by blast
  with a show "name \<in> S' \<longleftrightarrow>
           (\<exists>item \<in> set items'. \<exists>s. getitem item ''name_value'' = Inr (JString s) \<and>
              name \<in> set (split [CHR 0x0A] s) \<and> \<not> startswith ''*.'' name)"
    using crtsh_domains_mem[of response_json' S' items' name] by blast
qed

theorem wildcard_stripped_by_certspotter_discarded_by_crtsh_witness:
  "fst (certspotter_scraping sources_up ''example.com'' blank_disk)
     = Inr {''b.example.com'', ''example.com''}
   \<and> ''example.com'' \<in> {''b.example.com'', ''example.com''}
   \<and> fst (crtsh_scraping sources_up ''example.com'' blank_disk) = Inr {''www.example.com''}
   \<and> ''*.example.com'' \<notin> {''www.example.com''}"
proof -
  let ?item = "JObject [(''dns_names'', JArray [JString ''*.example.com'', JString ''b.example.com''])]"
  have 1: "certspotter_get sources_up ''example.com'' = Inr (JArray [?item])"
    by (simp add: sources_up_def cs_answer_def)
  have 2: "fst (certspotter_scraping sources_up ''example.com'' blank_disk)
             = Inr {''b.example.com'', ''example.com''}"
    by code_simp
  have 3: "py_iter (JArray [?item]) = Inr [?item]" by (simp add: py_iter_def)
  have 4: "?item \<in> set [?item]" by simp
  have 5: "getitem ?item ''dns_names''
             = Inr (JArray [JString ''*.example.com'', JString ''b.example.com''])"
    by (simp add: getitem_def)
  have 6: "py_iter (JArray [JString ''*.example.com'', JString ''b.example.com''])
             = Inr [JString ''*.example.com'', JString ''b.example.com'']"
    by (simp add: py_iter_def)
  have 7: "JString (''*.'' @ ''example.com'')
             \<in> set [JString ''*.example.com'', JString ''b.example.com'']"
    by simp
  have 8: "''example.com'' = [] \<or> (hd ''example.com'' \<noteq> CHR ''*'' \<and> hd ''example.com'' \<noteq> CHR ''.'')"
    by simp
  let ?crt = "JObject [(''name_value'', JString (''*.example.com'' @ [CHR 0x0A] @ ''www.example.com''))]"
  have 9: "crtsh_get sources_up ''example.com'' = Inr (JArray [?crt])"
    by (simp add: sources_up_def crt_answer_def)
  have 10: "fst (crtsh_scraping sources_up ''example.com'' blank_disk) = Inr {''www.example.com''}"
    by code_simp
  have 11: "py_iter (JArray [?crt]) = Inr [?crt]" by (simp add: py_iter_def)
  note t = wildcard_stripped_by_certspotter_discarded_by_crtsh[of sources_up "''example.com''"
      "JArray [?item]" blank_disk "{''b.example.com'', ''example.com''}" "[?item]" ?item
      "JArray [JString ''*.example.com'', JString ''b.example.com'']"
      "[JString ''*.example.com'', JString ''b.example.com'']" "''example.com''"
      "JArray [?crt]" "{''www.example.com''}" "[?crt]" "''*.example.com''"]
  have a: "''example.com'' \<in> {''b.example.com'', ''example.com''}"
    using t[THEN conjunct1] 1 2 3 4 5 6 7 8 by blast
  have "(''*.example.com'' \<in> {''www.example.com''}) =
          (\<exists>item \<in> set [?crt]. \<exists>s. getitem item ''name_value'' = Inr (JString s) \<and>
              ''*.example.com'' \<in> set (split [CHR 0x0A] s) \<and> \<not> startswith ''*.'' ''*.example.com'')"
    using t[THEN conjunct2] 9 10 11 by blast
  then have b: "''*.example.com'' \<notin> {''www.example.com''}"
    by (simp add: startswith_def)
  from 2 a 10 b show ?thesis by (intro conjI)
qed

section \<open>Audit records\<close>

lemma write_to_cache_written:
  "written (write_to_cache src subdir domain response domains d) =
     written d @ audit_record src subdir domain (clock_reads d) response (sort domains)"
  by (simp add: write_to_cache_def audit_record_def Let_def)

lemma sort_sorted_list_of_set:
  "sort (sorted_list_of_set (S :: string set)) = sorted_list_of_set S"
  by (simp add: sorted_sort_id)

text \<open>A rate-limited answer of hackertarget is returned before anything is written.\<close>

lemma rate_limited_hackertarget_writes_nothing:
  "hackertarget_scraping sources_ht_limited ''example.com'' blank_disk = (Inr {}, blank_disk)"
  by code_simp

text \<open>
  Claim C8, as stated, fails: when the request to hackertarget times out, the
  exception leaves \<open>hackertarget_scraping\<close> and nothing is written, so the failed
  interaction has no audit record.
\<close>

theorem failed_hackertarget_writes_no_record:
  "hackertarget_scraping sources_ht_down ''example.com'' blank_disk
     = (Inl (TimeoutError []), blank_disk)
   \<and> written blank_disk = []"
  by code_simp

text \<open>
  Claim C8, amended. Every interaction with a source that returns its hostnames
  (for hackertarget: with an answer that is not rate-limited) appends one audit
  record, stamped with the time of the write: a file with the response and a file
  with the derived hostnames, sorted, one per line. The response file holds the
  response text for dnsdumpster and hackertarget, and for certspotter and crt.sh the
  \<^verbatim>\<open>json.dumps\<close> serialisation of the decoded response. An interaction that raises,
  in the request or in the parsing of the answer, writes nothing.
\<close>

theorem completed_source_writes_audit_record:
  "(fst (dnsdumpster_scraping src domain d) = Inr names \<longrightarrow>
      (\<exists>token response. dnsdumpster_post src token domain = Inr response \<and>
         written (snd (dnsdumpster_scraping src domain d)) =
           written d @ audit_record src ''dnsdumpster_req_logs'' domain (clock_reads d) response
                         (sort names)))
   \<and> (certspotter_get src domain = Inr response_json \<and>
      fst (certspotter_scraping src domain d) = Inr S2 \<longrightarrow>
        written (snd (certspotter_scraping src domain d)) =
          written d @ audit_record src ''certspotter_req_logs'' domain (clock_reads d)
                        (json_dumps src response_json) (sorted_list_of_set S2))
   \<and> (hackertarget_get src domain = Inr response_text \<and>
      \<not> contains ''API count exceeded'' response_text \<and>
      fst (hackertarget_scraping src domain d) = Inr S3 \<longrightarrow>
        written (snd (hackertarget_scraping src domain d)) =
          written d @ audit_record src ''hackertarget_req_logs'' domain (clock_reads d)
                        response_text (sorted_list_of_set S3))
   \<and> (crtsh_get src domain = Inr response_json' \<and>
      fst (crtsh_scraping src domain d) = Inr S4 \<longrightarrow>
        written (snd (crtsh_scraping src domain d)) =
          written d @ audit_record src ''crtsh_req_logs'' domain (clock_reads d)
                        (json_dumps src response_json') (sorted_list_of_set S4))
   \<and> (fst (dnsdumpster_scraping src domain d) = Inl e1 \<longrightarrow>
        snd (dnsdumpster_scraping src domain d) = d)
   \<and> (fst (certspotter_scraping src domain d) = Inl e2 \<longrightarrow>
        snd (certspotter_scraping src domain d) = d)
   \<and> (fst (hackertarget_scraping src domain d) = Inl e3 \<longrightarrow>
        snd (hackertarget_scraping src domain d) = d)
   \<and> (fst (crtsh_scraping src domain d) = Inl e4 \<longrightarrow>
        snd (crtsh_scraping src domain d) = d)"
proof (intro conjI impI)
  assume a: "fst (dnsdumpster_scraping src domain d) = Inr names"
  then obtain cookie t0 token rest response where
    c: "dnsdumpster_cookie src = Inr cookie"
       "split ''Set-Cookie: csrftoken='' cookie = t0 # token # rest"
    and p: "dnsdumpster_post src token domain = Inr response"
    by (auto simp: dnsdumpster_scraping_def Let_def split: sum.splits list.splits)
  with a have "written (snd (dnsdumpster_scraping src domain d)) =
           written d @ audit_record src ''dnsdumpster_req_logs'' domain (clock_reads d) response
                         (sort names)"
    by (auto simp: dnsdumpster_scraping_def Let_def write_to_cache_written)
  with p show "\<exists>token response. dnsdumpster_post src token domain = Inr response \<and>
         written (snd (dnsdumpster_scraping src domain d)) =
           written d @ audit_record src ''dnsdumpster_req_logs'' domain (clock_reads d) response
                         (sort names)"
    by blast
next
  assume "certspotter_get src domain = Inr response_json \<and>
      fst (certspotter_scraping src domain d) = Inr S2"
  then show "written (snd (certspotter_scraping src domain d)) =
          written d @ audit_record src ''certspotter_req_logs'' domain (clock_reads d)
                        (json_dumps src response_json) (sorted_list_of_set S2)"
    by (auto simp: certspotter_scraping_def write_to_cache_written sort_sorted_list_of_set
             split: sum.splits)
next
  assume "hackertarget_get src domain = Inr response_text \<and>
      \<not> contains ''API count exceeded'' response_text \<and>
      fst (hackertarget_scraping src domain d) = Inr S3"
  then show "written (snd (hackertarget_scraping src domain d)) =
          written d @ audit_record src ''hackertarget_req_logs'' domain (clock_reads d)
                        response_text (sorted_list_of_set S3)"
    by (auto simp: hackertarget_scraping_def Let_def write_to_cache_written
          sort_sorted_list_of_set)
next
  assume "crtsh_get src domain = Inr response_json' \<and>
      fst (crtsh_scraping src domain d) = Inr S4"
  then show "written (snd (crtsh_scraping src domain d)) =
          written d @ audit_record src ''crtsh_req_logs'' domain (clock_reads d)
                        (json_dumps src response_json') (sorted_list_of_set S4)"
    by (auto simp: crtsh_scraping_def write_to_cache_written sort_sorted_list_of_set
             split: sum.splits)
next
  assume "fst (dnsdumpster_scraping src domain d) = Inl e1"
  then show "snd (dnsdumpster_scraping src domain d) = d"
    by (auto simp: dnsdumpster_scraping_def Let_def split: sum.splits list.splits)
next
  assume "fst (certspotter_scraping src domain d) = Inl e2"
  then show "snd (certspotter_scraping src domain d) = d"
    by (auto simp: certspotter_scraping_def split: sum.splits)
next
  assume "fst (hackertarget_scraping src domain d) = Inl e3"
  then show "snd (hackertarget_scraping src domain d) = d"
    by (auto simp: hackertarget_scraping_def Let_def split: sum.splits if_splits)
next
  assume "fst (crtsh_scraping src domain d) = Inl e4"
  then show "snd (crtsh_scraping src domain d) = d"
    by (auto simp: crtsh_scraping_def split: sum.splits)
qed

theorem completed_source_writes_audit_record_witness:
  "(\<exists>token response. dnsdumpster_post sources_up token ''example.com'' = Inr response \<and>
      written (snd (dnsdumpster_scraping sources_up ''example.com'' blank_disk)) =
        written blank_disk @ audit_record sources_up ''dnsdumpster_req_logs'' ''example.com''
                               (clock_reads blank_disk) response (sort [''a.example.com'']))
   \<and> written (snd (certspotter_scraping sources_up ''example.com'' blank_disk)) =
       [(''/opt/cache/certspotter_req_logs/example.com_20240101_000000_response.txt'', ''[...]''),
        (''/opt/cache/certspotter_req_logs/example.com_20240101_000000_domains.txt'',
         ''b.example.com'' @ [CHR 0x0A] @ ''example.com'')]
   \<and> written (snd (hackertarget_scraping sources_up ''example.com'' blank_disk)) =
       [(''/opt/cache/hackertarget_req_logs/example.com_20240101_000000_response.txt'',
         ''c.example.com,93.184.216.34'' @ [CHR 0x0A] @ ''d.example.com,93.184.216.35''
           @ [CHR 0x0A]),
        (''/opt/cache/hackertarget_req_logs/example.com_20240101_000000_domains.txt'',
         ''c.example.com'' @ [CHR 0x0A] @ ''d.example.com'')]
   \<and> written (snd (crtsh_scraping sources_up ''example.com'' blank_disk)) =
       [(''/opt/cache/crtsh_req_logs/example.com_20240101_000000_response.txt'', ''[...]''),
        (''/opt/cache/crtsh_req_logs/example.com_20240101_000000_domains.txt'',
         ''www.example.com'')]
   \<and> fst (dnsdumpster_scraping sources_dd_down ''example.com'' blank_disk) = Inl IndexError
   \<and> snd (dnsdumpster_scraping sources_dd_down ''example.com'' blank_disk) = blank_disk
   \<and> fst (certspotter_scraping sources_cs_down ''example.com'' blank_disk)
       = Inl (ClientConnectorError ''Cannot connect to host api.certspotter.com'')
   \<and> snd (certspotter_scraping sources_cs_down ''example.com'' blank_disk) = blank_disk
   \<and> fst (hackertarget_scraping sources_ht_down ''example.com'' blank_disk)
       = Inl (TimeoutError [])
   \<and> snd (hackertarget_scraping sources_ht_down ''example.com'' blank_disk) = blank_disk
   \<and> fst (crtsh_scraping sources_crt_down ''example.com'' blank_disk) = Inl TypeError
   \<and> snd (crtsh_scraping sources_crt_down ''example.com'' blank_disk) = blank_disk"
proof -
  let ?r = "''c.example.com,93.184.216.34'' @ [CHR 0x0A] @ ''d.example.com,93.184.216.35''
              @ [CHR 0x0A]"
  let ?cs = "JArray [JObject [(''dns_names'',
                JArray [JString ''*.example.com'', JString ''b.example.com''])]]"
  let ?crt = "JArray [JObject [(''name_value'',
                JString (''*.example.com'' @ [CHR 0x0A] @ ''www.example.com''))]]"
  note t = completed_source_writes_audit_record[of sources_up "''example.com''" blank_disk
      "[''a.example.com'']" ?cs "{''b.example.com'', ''example.com''}" ?r
      "{''c.example.com'', ''d.example.com''}" ?crt "{''www.example.com''}"]
  have d1: "fst (dnsdumpster_scraping sources_up ''example.com'' blank_disk)
              = Inr [''a.example.com'']"
    by code_simp
  note dd = t[THEN conjunct1, THEN mp, OF d1]
  have c1: "certspotter_get sources_up ''example.com'' = Inr ?cs"
    by (simp add: sources_up_def cs_answer_def)
  have c2: "fst (certspotter_scraping sources_up ''example.com'' blank_disk)
              = Inr {''b.example.com'', ''example.com''}"
    by code_simp
  have c3: "written blank_disk @ audit_record sources_up ''certspotter_req_logs'' ''example.com''
             (clock_reads blank_disk) (json_dumps sources_up ?cs)
             (sorted_list_of_set {''b.example.com'', ''example.com''})
           = [(''/opt/cache/certspotter_req_logs/example.com_20240101_000000_response.txt'',
               ''[...]''),
              (''/opt/cache/certspotter_req_logs/example.com_20240101_000000_domains.txt'',
               ''b.example.com'' @ [CHR 0x0A] @ ''example.com'')]"
    by code_simp
  note cs = t[THEN conjunct2, THEN conjunct1, THEN mp, OF conjI[OF c1 c2]]
  have h1: "hackertarget_get sources_up ''example.com'' = Inr ?r"
    by (simp add: sources_up_def ht_answer_def)
  have h2: "\<not> contains ''API count exceeded'' ?r" by code_simp
  have h3: "fst (hackertarget_scraping sources_up ''example.com'' blank_disk)
             = Inr {''c.example.com'', ''d.example.com''}"
    by code_simp
  have h4: "written blank_disk @ audit_record sources_up ''hackertarget_req_logs'' ''example.com''
             (clock_reads blank_disk) ?r (sorted_list_of_set {''c.example.com'', ''d.example.com''})
           = [(''/opt/cache/hackertarget_req_logs/example.com_20240101_000000_response.txt'', ?r),
              (''/opt/cache/hackertarget_req_logs/example.com_20240101_000000_domains.txt'',
               ''c.example.com'' @ [CHR 0x0A] @ ''d.example.com'')]"
    by code_simp
  note ht = t[THEN conjunct2, THEN conjunct2, THEN conjunct1, THEN mp,
              OF conjI[OF h1 conjI[OF h2 h3]]]
  have r1: "crtsh_get sources_up ''example.com'' = Inr ?crt"
    by (simp add: sources_up_def crt_answer_def)
  have r2: "fst (crtsh_scraping sources_up ''example.com'' blank_disk) = Inr {''www.example.com''}"
    by code_simp
  have r3: "written blank_disk @ audit_record sources_up ''crtsh_req_logs'' ''example.com''
             (clock_reads blank_disk) (json_dumps sources_up ?crt)
             (sorted_list_of_set {''www.example.com''})
           = [(''/opt/cache/crtsh_req_logs/example.com_20240101_000000_response.txt'', ''[...]''),
              (''/opt/cache/crtsh_req_logs/example.com_20240101_000000_domains.txt'',
               ''www.example.com'')]"
    by code_simp
  note crt = t[THEN conjunct2, THEN conjunct2, THEN conjunct2, THEN conjunct1, THEN mp,
               OF conjI[OF r1 r2]]
  have a: "written (snd (certspotter_scraping sources_up ''example.com'' blank_disk)) =
       [(''/opt/cache/certspotter_req_logs/example.com_20240101_000000_response.txt'', ''[...]''),
        (''/opt/cache/certspotter_req_logs/example.com_20240101_000000_domains.txt'',
         ''b.example.com'' @ [CHR 0x0A] @ ''example.com'')]"
    using cs c3 by simp
  have b: "written (snd (hackertarget_scraping sources_up ''example.com'' blank_disk)) =
       [(''/opt/cache/hackertarget_req_logs/example.com_20240101_000000_response.txt'', ?r),
        (''/opt/cache/hackertarget_req_logs/example.com_20240101_000000_domains.txt'',
         ''c.example.com'' @ [CHR 0x0A] @ ''d.example.com'')]"
    using ht h4 by simp
  have c: "written (snd (crtsh_scraping sources_up ''example.com'' blank_disk)) =
       [(''/opt/cache/crtsh_req_logs/example.com_20240101_000000_response.txt'', ''[...]''),
        (''/opt/cache/crtsh_req_logs/example.com_20240101_000000_domains.txt'',
         ''www.example.com'')]"
    using crt r3 by simp
  have f1: "fst (dnsdumpster_scraping sources_dd_down ''example.com'' blank_disk) = Inl IndexError"
    by code_simp
  have f2: "fst (certspotter_scraping sources_cs_down ''example.com'' blank_disk)
              = Inl (ClientConnectorError ''Cannot connect to host api.certspotter.com'')"
    by code_simp
  have f3: "fst (hackertarget_scraping sources_ht_down ''example.com'' blank_disk)
              = Inl (TimeoutError [])"
    by code_simp
  have f4: "fst (crtsh_scraping sources_crt_down ''example.com'' blank_disk) = Inl TypeError"
    by code_simp
  note tail = conjunct2[OF conjunct2[OF conjunct2[OF conjunct2]]]
  have g1: "snd (dnsdumpster_scraping sources_dd_down ''example.com'' blank_disk) = blank_disk"
    using completed_source_writes_audit_record[of sources_dd_down "''example.com''" blank_disk,
            THEN tail, THEN conjunct1, THEN mp, OF f1] .
  have g2: "snd (certspotter_scraping sources_cs_down ''example.com'' blank_disk) = blank_disk"
    using completed_source_writes_audit_record[of sources_cs_down "''example.com''" blank_disk,
            THEN tail, THEN conjunct2, THEN conjunct1, THEN mp, OF f2] .
  have g3: "snd (hackertarget_scraping sources_ht_down ''example.com'' blank_disk) = blank_disk"
    using completed_source_writes_audit_record[of sources_ht_down "''example.com''" blank_disk,
            THEN tail, THEN conjunct2, THEN conjunct2, THEN conjunct1, THEN mp, OF f3] .
  have g4: "snd (crtsh_scraping sources_crt_down ''example.com'' blank_disk) = blank_disk"
    using completed_source_writes_audit_record[of sources_crt_down "''example.com''" blank_disk,
            THEN tail, THEN conjunct2, THEN conjunct2, THEN conjunct2, THEN mp, OF f4] .
  from dd a b c f1 g1 f2 g2 f3 g3 f4 g4 show ?thesis by (intro conjI)
qed

end
